theory Spec2Isabelle
  imports Complex_Main "HOL-Library.AList" "HOL-Library.List_Lexorder"
    "HOL-Library.Product_Lexorder"
begin

chapter \<open>Course selection and GPA calculator: the planning core (core.py)\<close>

text \<open>
  The development embeds the catalog, the enrollment plan and the loader of \<^verbatim>\<open>core.py\<close>.
  The listing queries that no statement below is about (\<^verbatim>\<open>offered_in_by_type\<close>,
  \<^verbatim>\<open>required_missing\<close>, \<^verbatim>\<open>courses_in_semester\<close>, \<^verbatim>\<open>grouped\<close>, \<^verbatim>\<open>validate\<close>) and the file
  access of the loader are left out: \<open>load_from_config\<close> starts from the parsed document.

  \<^item> A Python \<^verbatim>\<open>str\<close> is the list of its code points (\<open>nat list\<close>): comparison,
    slicing and the regular expressions of the source work on code points. String
    order is the lexicographic order of \<open>List_Lexorder\<close>, tuple order that of
    \<open>Product_Lexorder\<close>, which is what Python's \<^verbatim>\<open>sorted\<close> compares with.
  \<^item> The Python runtime is a parameter (\<open>pyrt\<close>). It gives the code points that
    \<^verbatim>\<open>str.strip()\<close> removes, the ones that the pattern \<^verbatim>\<open>\d\<close> accepts, the built-in
    \<^verbatim>\<open>int()\<close> on strings (\<open>None\<close> where it raises), and the type \<open>'f\<close> of \<^verbatim>\<open>float\<close>
    values with its operations: the constants 0.0 and 4.0, \<^verbatim>\<open>+\<close>, \<^verbatim>\<open>-\<close>, \<^verbatim>\<open>*\<close>, \<^verbatim>\<open>/\<close>,
    the comparisons \<^verbatim>\<open><\<close> and \<^verbatim>\<open><=\<close>, the built-in \<^verbatim>\<open>sum()\<close> of a list of floats
    (a left-to-right fold of \<^verbatim>\<open>+\<close> in older interpreters, a compensated sum in newer
    ones) and \<^verbatim>\<open>round(x, n)\<close>. The integer 0 is identified with the float 0.0.
    Nothing is assumed of these operations: binary floating point, with its rounding
    of every result and its NaN (for which every comparison is false), is one such
    runtime, and every statement below that names no particular runtime holds for it.
  \<^item> An exception is a value of type \<open>error\<close>; an operation that mutates the plan
    returns its outcome together with the plan as it is when the call ends, whether
    it returned or raised.
\<close>

section \<open>The model\<close>

subsection \<open>The runtime\<close>

type_synonym pystr = "nat list"

record 'f pyrt =
  is_space :: "nat \<Rightarrow> bool"
  is_decimal :: "nat \<Rightarrow> bool"
  int_of_str :: "pystr \<Rightarrow> int option"
  fzero :: 'f
  ffour :: 'f
  fadd :: "'f \<Rightarrow> 'f \<Rightarrow> 'f"
  fsub :: "'f \<Rightarrow> 'f \<Rightarrow> 'f"
  fmul :: "'f \<Rightarrow> 'f \<Rightarrow> 'f"
  fdiv :: "'f \<Rightarrow> 'f \<Rightarrow> 'f"
  flt :: "'f \<Rightarrow> 'f \<Rightarrow> bool"
  fle :: "'f \<Rightarrow> 'f \<Rightarrow> bool"
  fsum :: "'f list \<Rightarrow> 'f"
  fround :: "'f \<Rightarrow> nat \<Rightarrow> 'f"

text \<open>\<^verbatim>\<open>max(a, b)\<close> keeps its first argument unless the second is greater (\<^verbatim>\<open>b > a\<close>, that
  is \<^verbatim>\<open>a < b\<close>).\<close>

definition py_max :: "'f pyrt \<Rightarrow> 'f \<Rightarrow> 'f \<Rightarrow> 'f" where
  "py_max rt a b = (if flt rt a b then b else a)"

subsection \<open>Strings, seasons and semesters\<close>

text \<open>The three season characters of the source, by code point: U+79CB (autumn),
  U+6625 (spring), U+590F (summer).\<close>

definition qiu :: nat where "qiu = 31179"
definition chun :: nat where "chun = 26149"
definition xia :: nat where "xia = 22799"

definition SEASONS :: "pystr list" where
  "SEASONS = [[qiu], [chun], [xia]]"

definition PLAN_SEMESTERS :: "pystr list" where
  "PLAN_SEMESTERS =
     [[49, qiu], [49, chun], [49, xia],
      [50, qiu], [50, chun], [50, xia],
      [51, qiu], [51, chun], [51, xia],
      [52, qiu], [52, chun], [52, xia]]"

text \<open>The course type tags \<^verbatim>\<open>"\<close>required\<^verbatim>\<open>"\<close> (U+5FC5 U+4FEE) and
  \<^verbatim>\<open>"\<close>elective\<^verbatim>\<open>"\<close> (U+9009 U+4FEE), and the default category (U+672A U+5206 U+7C7B).\<close>

definition REQUIRED :: pystr where "REQUIRED = [24517, 20462]"
definition ELECTIVE :: pystr where "ELECTIVE = [36873, 20462]"
definition UNCATEGORIZED :: pystr where "UNCATEGORIZED = [26410, 20998, 31867]"

definition strip :: "'f pyrt \<Rightarrow> pystr \<Rightarrow> pystr" where
  "strip rt s = rev (dropWhile (is_space rt) (rev (dropWhile (is_space rt) s)))"

definition endswith :: "pystr \<Rightarrow> pystr \<Rightarrow> bool" where
  "endswith s t = (length t \<le> length s \<and> drop (length s - length t) s = t)"

definition season_char :: "nat \<Rightarrow> bool" where
  "season_char c = (c = qiu \<or> c = chun \<or> c = xia)"

text \<open>The year part \<^verbatim>\<open>[1-9]\d*\<close> of both patterns.\<close>

definition year_digits :: "'f pyrt \<Rightarrow> pystr \<Rightarrow> bool" where
  "year_digits rt y =
     (case y of [] \<Rightarrow> False
      | d # ds \<Rightarrow> 49 \<le> d \<and> d \<le> 57 \<and> list_all (is_decimal rt) ds)"

text \<open>\<^verbatim>\<open>COURSE_SEM_RE.fullmatch(s)\<close>: the result is group 2 of the match (the season), or
  \<open>None\<close> when the string does not match.\<close>

definition COURSE_SEM_RE :: "'f pyrt \<Rightarrow> pystr \<Rightarrow> pystr option" where
  "COURSE_SEM_RE rt s =
     (if s \<noteq> [] \<and> season_char (last s) \<and> (butlast s = [] \<or> year_digits rt (butlast s))
      then Some [last s] else None)"

text \<open>\<^verbatim>\<open>ACTUAL_SEM_RE.fullmatch(s)\<close> as a truth value.\<close>

definition ACTUAL_SEM_RE :: "'f pyrt \<Rightarrow> pystr \<Rightarrow> bool" where
  "ACTUAL_SEM_RE rt s = (s \<noteq> [] \<and> season_char (last s) \<and> year_digits rt (butlast s))"

subsection \<open>Errors\<close>

text \<open>One constructor for each \<^verbatim>\<open>raise\<close> of the source, with the values its message
  interpolates. \<open>exn_class\<close> gives the Python exception class.\<close>

datatype 'f error =
    InvalidSemesterTag pystr
  | InvalidSeason pystr
  | InvalidActualSemester pystr
  | InvalidGpaNotNumber
  | InvalidGpaRange
  | DuplicateIdentifier pystr
  | CourseNotFound pystr
  | NotEnrolled
  | DuplicateEnrollment pystr pystr
  | SeasonMismatch pystr pystr pystr pystr pystr pystr
  | CreditCapExceeded pystr 'f 'f 'f
  | EmptyStringIndex
  | FloatOfNone
  | InvalidIntLiteral pystr
  | MissingKey pystr

datatype exn = ValueError | KeyError | IndexError | TypeError

fun exn_class :: "'f error \<Rightarrow> exn" where
  "exn_class (CourseNotFound _) = KeyError"
| "exn_class NotEnrolled = KeyError"
| "exn_class (MissingKey _) = KeyError"
| "exn_class EmptyStringIndex = IndexError"
| "exn_class FloatOfNone = TypeError"
| "exn_class _ = ValueError"

definition extract_season :: "'f pyrt \<Rightarrow> pystr \<Rightarrow> 'f error + pystr" where
  "extract_season rt semester_str =
     (case COURSE_SEM_RE rt (strip rt semester_str) of
        None \<Rightarrow> Inl (InvalidSemesterTag semester_str)
      | Some season \<Rightarrow>
          if season \<notin> set SEASONS then Inl (InvalidSeason season) else Inr season)"

definition ensure_actual_semester :: "'f pyrt \<Rightarrow> pystr \<Rightarrow> 'f error + pystr" where
  "ensure_actual_semester rt sem =
     (let sem' = strip rt sem in
      if \<not> ACTUAL_SEM_RE rt sem' then Inl (InvalidActualSemester sem') else Inr sem')"

definition season_of_actual_semester :: "'f pyrt \<Rightarrow> pystr \<Rightarrow> 'f error + pystr" where
  "season_of_actual_semester rt sem =
     (case ensure_actual_semester rt sem of
        Inl e \<Rightarrow> Inl e
      | Inr sem' \<Rightarrow> if sem' = [] then Inl EmptyStringIndex else Inr [last sem'])"

subsection \<open>Grades\<close>

text \<open>The argument of \<^verbatim>\<open>validate_gpa\<close> as \<^verbatim>\<open>float()\<close> sees it: \<^verbatim>\<open>None\<close>, an object
  that \<^verbatim>\<open>float()\<close> converts to a float (which may be a NaN), or one on which
  \<^verbatim>\<open>float()\<close> raises. The two comparisons are those of the source, \<^verbatim>\<open>v < 0.0\<close> and
  \<^verbatim>\<open>v > 4.0\<close>.\<close>

datatype 'f gpa_arg = NoGpa | Floatable 'f | NotFloatable

fun validate_gpa :: "'f pyrt \<Rightarrow> 'f gpa_arg \<Rightarrow> 'f error + 'f option" where
  "validate_gpa rt NoGpa = Inr None"
| "validate_gpa rt NotFloatable = Inl InvalidGpaNotNumber"
| "validate_gpa rt (Floatable v) =
     (if flt rt v (fzero rt) \<or> flt rt (ffour rt) v then Inl InvalidGpaRange
      else Inr (Some (fround rt v 2)))"

subsection \<open>Data structures\<close>

record 'f course =
  course_id :: pystr
  name :: pystr
  course_type :: pystr
  credits :: 'f
  semester :: pystr
  hours :: "pystr option"
  category :: pystr

text \<open>\<open>item_course_id\<close> is the field \<^verbatim>\<open>course_id\<close> of \<^verbatim>\<open>PlanItem\<close>.\<close>

record 'f plan_item =
  item_course_id :: pystr
  actual_semester :: pystr
  gpa :: "'f option"

subsection \<open>Catalog\<close>

text \<open>The dictionary \<^verbatim>\<open>_by_id\<close> in insertion order.\<close>

type_synonym 'f catalog = "(pystr \<times> 'f course) list"

fun Catalog_loop :: "'f pyrt \<Rightarrow> 'f catalog \<Rightarrow> 'f course list \<Rightarrow> 'f error + 'f catalog" where
  "Catalog_loop rt by_id [] = Inr by_id"
| "Catalog_loop rt by_id (c # cs) =
     (if course_id c \<in> set (map fst by_id) then Inl (DuplicateIdentifier (course_id c))
      else case extract_season rt (semester c) of
             Inl e \<Rightarrow> Inl e
           | Inr _ \<Rightarrow> Catalog_loop rt (by_id @ [(course_id c, c)]) cs)"

definition Catalog_init :: "'f pyrt \<Rightarrow> 'f course list \<Rightarrow> 'f error + 'f catalog" where
  "Catalog_init rt courses = Catalog_loop rt [] courses"

definition Catalog_get :: "'f catalog \<Rightarrow> pystr \<Rightarrow> 'f error + 'f course" where
  "Catalog_get cat cid =
     (case map_of cat cid of None \<Rightarrow> Inl (CourseNotFound cid) | Some c \<Rightarrow> Inr c)"

definition Catalog_all :: "'f catalog \<Rightarrow> 'f course list" where
  "Catalog_all cat = map snd cat"

definition required_courses :: "'f catalog \<Rightarrow> 'f course list" where
  "required_courses cat = filter (\<lambda>c. course_type c = REQUIRED) (map snd cat)"

subsection \<open>EnrollmentPlan: state and basic queries\<close>

record 'f plan =
  catalog :: "'f catalog"
  term_credit_limit :: 'f
  elective_credit_requirement :: 'f
  items :: "'f plan_item list"

definition EnrollmentPlan_init :: "'f catalog \<Rightarrow> 'f \<Rightarrow> 'f \<Rightarrow> 'f plan" where
  "EnrollmentPlan_init cat limit req =
     \<lparr>catalog = cat, term_credit_limit = limit, elective_credit_requirement = req, items = []\<rparr>"

definition has_course :: "'f plan \<Rightarrow> pystr \<Rightarrow> bool" where
  "has_course p cid = list_ex (\<lambda>i. item_course_id i = cid) (items p)"

definition get_item :: "'f plan \<Rightarrow> pystr \<Rightarrow> 'f error + 'f plan_item" where
  "get_item p cid =
     (case find (\<lambda>i. item_course_id i = cid) (items p) of
        None \<Rightarrow> Inl NotEnrolled | Some i \<Rightarrow> Inr i)"


text \<open>\<^verbatim>\<open>sum(...)\<close> over a generator whose elements may raise: the elements are evaluated
  from left to right and the first exception ends the call; otherwise \<^verbatim>\<open>sum\<close> adds the
  values.\<close>

fun gen_values :: "('e + 'a) list \<Rightarrow> 'e + 'a list" where
  "gen_values [] = Inr []"
| "gen_values (Inl e # xs) = Inl e"
| "gen_values (Inr v # xs) = (case gen_values xs of Inl e \<Rightarrow> Inl e | Inr vs \<Rightarrow> Inr (v # vs))"

definition py_sum :: "'f pyrt \<Rightarrow> ('f error + 'f) list \<Rightarrow> 'f error + 'f" where
  "py_sum rt xs = (case gen_values xs of Inl e \<Rightarrow> Inl e | Inr vs \<Rightarrow> Inr (fsum rt vs))"

definition credits_of :: "'f catalog \<Rightarrow> 'f plan_item \<Rightarrow> 'f error + 'f" where
  "credits_of cat i = map_sum id credits (Catalog_get cat (item_course_id i))"

definition total_credits :: "'f pyrt \<Rightarrow> 'f plan \<Rightarrow> 'f error + 'f" where
  "total_credits rt p = py_sum rt (map (credits_of (catalog p)) (items p))"

definition semester_credits :: "'f pyrt \<Rightarrow> 'f plan \<Rightarrow> pystr \<Rightarrow> 'f error + 'f" where
  "semester_credits rt p sem =
     (case ensure_actual_semester rt sem of
        Inl e \<Rightarrow> Inl e
      | Inr sem' \<Rightarrow>
          py_sum rt
            (map (credits_of (catalog p))
                 (filter (\<lambda>i. actual_semester i = sem') (items p))))"

subsection \<open>EnrollmentPlan: mutation operations\<close>

text \<open>The outcome of a call and the plan when the call ends.\<close>

type_synonym ('f, 'a) outcome = "('f error + 'a) \<times> 'f plan"

text \<open>\<^verbatim>\<open>self._get_item(course_id).gpa = g\<close>: the first item with that identifier is updated.\<close>

fun assign_gpa :: "pystr \<Rightarrow> 'f option \<Rightarrow> 'f plan_item list \<Rightarrow> 'f plan_item list" where
  "assign_gpa cid g [] = []"
| "assign_gpa cid g (i # rest) =
     (if item_course_id i = cid then i\<lparr>gpa := g\<rparr> # rest else i # assign_gpa cid g rest)"

text \<open>Python evaluates the right-hand side \<^verbatim>\<open>validate_gpa(gpa)\<close> before the target
  \<^verbatim>\<open>self._get_item(course_id)\<close>.\<close>

definition set_gpa :: "'f pyrt \<Rightarrow> 'f plan \<Rightarrow> pystr \<Rightarrow> 'f gpa_arg \<Rightarrow> ('f, unit) outcome" where
  "set_gpa rt p cid g =
     (case validate_gpa rt g of
        Inl e \<Rightarrow> (Inl e, p)
      | Inr v \<Rightarrow>
          (case get_item p cid of
             Inl e \<Rightarrow> (Inl e, p)
           | Inr _ \<Rightarrow> (Inr (), p\<lparr>items := assign_gpa cid v (items p)\<rparr>)))"

definition add_course :: "'f pyrt \<Rightarrow> 'f plan \<Rightarrow> pystr \<Rightarrow> pystr \<Rightarrow> ('f, unit) outcome" where
  "add_course rt p cid sem =
     (case ensure_actual_semester rt sem of
        Inl e \<Rightarrow> (Inl e, p)
      | Inr sem' \<Rightarrow>
     (case Catalog_get (catalog p) cid of
        Inl e \<Rightarrow> (Inl e, p)
      | Inr c \<Rightarrow>
     if has_course p cid then (Inl (DuplicateEnrollment (course_id c) (name c)), p)
     else
     (case extract_season rt (semester c) of
        Inl e \<Rightarrow> (Inl e, p)
      | Inr course_season \<Rightarrow>
     (case season_of_actual_semester rt sem' of
        Inl e \<Rightarrow> (Inl e, p)
      | Inr target_season \<Rightarrow>
     if course_season \<noteq> target_season
     then (Inl (SeasonMismatch sem' target_season (course_id c) (name c)
                  course_season (semester c)), p)
     else
     (case semester_credits rt p sem' of
        Inl e \<Rightarrow> (Inl e, p)
      | Inr current \<Rightarrow>
     if flt rt (term_credit_limit p) (fadd rt current (credits c))
     then (Inl (CreditCapExceeded sem' current (credits c) (term_credit_limit p)), p)
     else (Inr (), p\<lparr>items := items p @
             [\<lparr>item_course_id = cid, actual_semester = sem', gpa = None\<rparr>]\<rparr>))))))"

definition remove_course :: "'f plan \<Rightarrow> pystr \<Rightarrow> ('f, unit) outcome" where
  "remove_course p cid =
     (let before = length (items p);
          p' = p\<lparr>items := filter (\<lambda>i. item_course_id i \<noteq> cid) (items p)\<rparr>
      in if length (items p') = before then (Inl NotEnrolled, p') else (Inr (), p'))"

text \<open>\<^verbatim>\<open>sorted(required_courses(), key=...)\<close>: the keys
  \<^verbatim>\<open>(extract_season(x.semester), x.course_id)\<close> are computed first, from left to right,
  and the courses are then sorted by them, stably.\<close>

fun season_keys ::
  "'f pyrt \<Rightarrow> 'f course list \<Rightarrow> 'f error + ((pystr \<times> pystr) \<times> 'f course) list" where
  "season_keys rt [] = Inr []"
| "season_keys rt (c # cs) =
     (case extract_season rt (semester c) of
        Inl e \<Rightarrow> Inl e
      | Inr s \<Rightarrow>
          (case season_keys rt cs of
             Inl e \<Rightarrow> Inl e
           | Inr ks \<Rightarrow> Inr (((s, course_id c), c) # ks)))"

text \<open>The target semester that \<^verbatim>\<open>auto_add_all_required\<close> computes for a course.\<close>

definition auto_target :: "'f pyrt \<Rightarrow> 'f course \<Rightarrow> 'f error + pystr" where
  "auto_target rt c =
     (case (if ACTUAL_SEM_RE rt (semester c) then Inr (semester c)
            else case extract_season rt (semester c) of
                   Inl e \<Rightarrow> Inl e
                 | Inr s \<Rightarrow> Inr (if s = [qiu] then [52, qiu]
                                else if s = [chun] then [52, chun] else [52, xia])) of
        Inl e \<Rightarrow> Inl e
      | Inr target \<Rightarrow>
          Inr (if target \<notin> set PLAN_SEMESTERS
               then (if endswith target [qiu] then [52, qiu]
                     else if endswith target [chun] then [52, chun] else [52, xia])
               else target))"

fun auto_add_loop :: "'f pyrt \<Rightarrow> 'f plan \<Rightarrow> 'f course list \<Rightarrow> ('f, unit) outcome" where
  "auto_add_loop rt p [] = (Inr (), p)"
| "auto_add_loop rt p (c # cs) =
     (if has_course p (course_id c) then auto_add_loop rt p cs
      else case auto_target rt c of
             Inl e \<Rightarrow> (Inl e, p)
           | Inr target \<Rightarrow>
               (case add_course rt p (course_id c) target of
                  (Inl e, p') \<Rightarrow> (Inl e, p')
                | (Inr _, p') \<Rightarrow> auto_add_loop rt p' cs))"

definition auto_add_all_required :: "'f pyrt \<Rightarrow> 'f plan \<Rightarrow> ('f, unit) outcome" where
  "auto_add_all_required rt p =
     (case season_keys rt (required_courses (catalog p)) of
        Inl e \<Rightarrow> (Inl e, p)
      | Inr ks \<Rightarrow> auto_add_loop rt p (map snd (sort_key fst ks)))"

subsection \<open>EnrollmentPlan: weighted GPA\<close>

text \<open>The accumulation loop that the four GPA functions share word for word:
  \<^verbatim>\<open>c = self.catalog.get(i.course_id); total_w += float(i.gpa) * c.credits; total_c += c.credits\<close>.\<close>

fun gpa_loop :: "'f pyrt \<Rightarrow> 'f catalog \<Rightarrow> 'f \<times> 'f \<Rightarrow> 'f plan_item list \<Rightarrow> 'f error + 'f \<times> 'f" where
  "gpa_loop rt cat (total_w, total_c) [] = Inr (total_w, total_c)"
| "gpa_loop rt cat (total_w, total_c) (i # rest) =
     (case Catalog_get cat (item_course_id i) of
        Inl e \<Rightarrow> Inl e
      | Inr c \<Rightarrow>
          (case gpa i of
             None \<Rightarrow> Inl FloatOfNone
           | Some g \<Rightarrow>
               gpa_loop rt cat
                 (fadd rt total_w (fmul rt g (credits c)), fadd rt total_c (credits c)) rest))"

definition semester_gpa :: "'f pyrt \<Rightarrow> 'f plan \<Rightarrow> pystr \<Rightarrow> 'f error + 'f option \<times> nat" where
  "semester_gpa rt p sem =
     (case ensure_actual_semester rt sem of
        Inl e \<Rightarrow> Inl e
      | Inr sem' \<Rightarrow>
          (let term_items = filter (\<lambda>i. actual_semester i = sem') (items p) in
           if term_items = [] then Inr (None, 0)
           else
             (let missing = length (filter (\<lambda>i. gpa i = None) term_items) in
              if missing > 0 then Inr (None, missing)
              else
                (case gpa_loop rt (catalog p) (fzero rt, fzero rt) term_items of
                   Inl e \<Rightarrow> Inl e
                 | Inr (total_w, total_c) \<Rightarrow>
                     if fle rt total_c (fzero rt) then Inr (None, 0)
                     else Inr (Some (fround rt (fdiv rt total_w total_c) 3), 0)))))"

definition overall_gpa :: "'f pyrt \<Rightarrow> 'f plan \<Rightarrow> 'f error + 'f option \<times> nat" where
  "overall_gpa rt p =
     (if items p = [] then Inr (None, 0)
      else
        (let missing = length (filter (\<lambda>it. gpa it = None) (items p)) in
         if missing > 0 then Inr (None, missing)
         else
           (case gpa_loop rt (catalog p) (fzero rt, fzero rt) (items p) of
              Inl e \<Rightarrow> Inl e
            | Inr (total_w, total_c) \<Rightarrow>
                if fle rt total_c (fzero rt) then Inr (None, 0)
                else Inr (Some (fround rt (fdiv rt total_w total_c) 3), 0))))"

text \<open>\<^verbatim>\<open>c.category or "..."\<close>: the default replaces an empty category.\<close>

definition category_or_default :: "'f course \<Rightarrow> pystr" where
  "category_or_default c = (if category c = [] then UNCATEGORIZED else category c)"

text \<open>The default major categories: required major courses (U+4E13 U+4E1A U+5FC5 U+4FEE)
  and elective major courses (U+4E13 U+4E1A U+9009 U+4FEE).\<close>

definition MAJOR_CATEGORIES :: "pystr set" where
  "MAJOR_CATEGORIES = {[19987, 19994, 24517, 20462], [19987, 19994, 36873, 20462]}"

fun major_items ::
  "'f pyrt \<Rightarrow> 'f catalog \<Rightarrow> pystr set \<Rightarrow> 'f plan_item list \<Rightarrow> 'f error + 'f plan_item list" where
  "major_items rt cat cats [] = Inr []"
| "major_items rt cat cats (it # rest) =
     (case Catalog_get cat (item_course_id it) of
        Inl e \<Rightarrow> Inl e
      | Inr c \<Rightarrow>
          (case major_items rt cat cats rest of
             Inl e \<Rightarrow> Inl e
           | Inr ms \<Rightarrow> Inr (if strip rt (category_or_default c) \<in> cats then it # ms else ms)))"

definition major_gpa ::
  "'f pyrt \<Rightarrow> 'f plan \<Rightarrow> pystr set option \<Rightarrow> 'f error + 'f option \<times> nat" where
  "major_gpa rt p major_categories =
     (let cats = (case major_categories of None \<Rightarrow> MAJOR_CATEGORIES | Some cs \<Rightarrow> cs) in
      case major_items rt (catalog p) cats (items p) of
        Inl e \<Rightarrow> Inl e
      | Inr major \<Rightarrow>
          if major = [] then Inr (None, 0)
          else
            (let missing = length (filter (\<lambda>it. gpa it = None) major) in
             if missing > 0 then Inr (None, missing)
             else
               (case gpa_loop rt (catalog p) (fzero rt, fzero rt) major of
                  Inl e \<Rightarrow> Inl e
                | Inr (total_w, total_c) \<Rightarrow>
                    if fle rt total_c (fzero rt) then Inr (None, 0)
                    else Inr (Some (fround rt (fdiv rt total_w total_c) 3), 0))))"

text \<open>\<^verbatim>\<open>buckets.setdefault(year, []).append(it)\<close> on a dictionary kept in insertion order.\<close>

fun setdefault_append :: "'k \<Rightarrow> 'v \<Rightarrow> ('k \<times> 'v list) list \<Rightarrow> ('k \<times> 'v list) list" where
  "setdefault_append k v [] = [(k, [v])]"
| "setdefault_append k v ((k', vs) # rest) =
     (if k' = k then (k', vs @ [v]) # rest else (k', vs) # setdefault_append k v rest)"

fun bucket_loop ::
  "'f pyrt \<Rightarrow> (int \<times> 'f plan_item list) list \<Rightarrow> 'f plan_item list
     \<Rightarrow> 'f error + (int \<times> 'f plan_item list) list"
where
  "bucket_loop rt buckets [] = Inr buckets"
| "bucket_loop rt buckets (it # rest) =
     (case int_of_str rt (butlast (actual_semester it)) of
        None \<Rightarrow> Inl (InvalidIntLiteral (butlast (actual_semester it)))
      | Some year \<Rightarrow> bucket_loop rt (setdefault_append year it buckets) rest)"

fun yearly_loop ::
  "'f pyrt \<Rightarrow> 'f catalog \<Rightarrow> (int \<times> 'f option \<times> nat) list \<Rightarrow> (int \<times> 'f plan_item list) list
     \<Rightarrow> 'f error + (int \<times> 'f option \<times> nat) list"
where
  "yearly_loop rt cat out [] = Inr out"
| "yearly_loop rt cat out ((year, its) # rest) =
     (if its = [] then yearly_loop rt cat (AList.update year (None, 0) out) rest
      else
        (let missing = length (filter (\<lambda>it. gpa it = None) its) in
         if missing > 0 then yearly_loop rt cat (AList.update year (None, missing) out) rest
         else
           (case gpa_loop rt cat (fzero rt, fzero rt) its of
              Inl e \<Rightarrow> Inl e
            | Inr (total_w, total_c) \<Rightarrow>
                if fle rt total_c (fzero rt)
                then yearly_loop rt cat (AList.update year (None, 0) out) rest
                else yearly_loop rt cat
                       (AList.update year (Some (fround rt (fdiv rt total_w total_c) 3), 0) out)
                       rest)))"

definition yearly_gpa :: "'f pyrt \<Rightarrow> 'f plan \<Rightarrow> 'f error + (int \<times> 'f option \<times> nat) list" where
  "yearly_gpa rt p =
     (case bucket_loop rt [] (items p) of
        Inl e \<Rightarrow> Inl e
      | Inr buckets \<Rightarrow> yearly_loop rt (catalog p) [] (sort_key fst buckets))"

subsection \<open>EnrollmentPlan: credit progress\<close>

record 'f progress =
  required :: 'f
  selected :: 'f
  completed :: 'f

text \<open>A row of \<^verbatim>\<open>credit_progress_rows\<close>; the fields are the keys of the row dictionary.\<close>

record 'f progress_row =
  row_category :: pystr
  row_required :: 'f
  row_selected :: 'f
  row_completed :: 'f
  row_remaining :: 'f

text \<open>\<^verbatim>\<open>(c.category or "...").strip() or "..."\<close>\<close>

definition item_category :: "'f pyrt \<Rightarrow> 'f course \<Rightarrow> pystr" where
  "item_category rt c =
     (let s = strip rt (category_or_default c) in if s = [] then UNCATEGORIZED else s)"

fun progress_loop ::
  "'f pyrt \<Rightarrow> 'f catalog \<Rightarrow> (pystr \<times> 'f progress) list \<Rightarrow> 'f plan_item list
     \<Rightarrow> 'f error + (pystr \<times> 'f progress) list"
where
  "progress_loop rt cat prog [] = Inr prog"
| "progress_loop rt cat prog (item # rest) =
     (case Catalog_get cat (item_course_id item) of
        Inl e \<Rightarrow> Inl e
      | Inr c \<Rightarrow>
          (let cat_name = item_category rt c;
               prog1 = (if cat_name \<notin> set (map fst prog)
                        then AList.update cat_name
                               \<lparr>required = fzero rt, selected = fzero rt, completed = fzero rt\<rparr>
                               prog
                        else prog);
               prog2 = AList.map_entry cat_name
                         (\<lambda>e. e\<lparr>selected := fadd rt (selected e) (credits c)\<rparr>) prog1;
               prog3 = (if gpa item \<noteq> None
                        then AList.map_entry cat_name
                               (\<lambda>e. e\<lparr>completed := fadd rt (completed e) (credits c)\<rparr>) prog2
                        else prog2)
           in progress_loop rt cat prog3 rest))"

definition credit_progress_by_category ::
  "'f pyrt \<Rightarrow> 'f plan \<Rightarrow> (pystr \<times> 'f) list \<Rightarrow> 'f error + (pystr \<times> 'f progress) list"
where
  "credit_progress_by_category rt p requirements =
     (let seeded = fold (\<lambda>(cat_name, req) prog.
                      AList.update cat_name
                        \<lparr>required = req, selected = fzero rt, completed = fzero rt\<rparr> prog)
                    requirements []
      in case progress_loop rt (catalog p) seeded (items p) of
           Inl e \<Rightarrow> Inl e
         | Inr prog \<Rightarrow>
             Inr (map (\<lambda>(cat_name, e).
                         (cat_name, \<lparr>required = fround rt (required e) 3,
                                     selected = fround rt (selected e) 3,
                                     completed = fround rt (completed e) 3\<rparr>)) prog))"

fun rows_loop ::
  "'f pyrt \<Rightarrow> (pystr \<times> 'f progress) list \<Rightarrow> pystr list \<Rightarrow> 'f error + 'f progress_row list" where
  "rows_loop rt prog [] = Inr []"
| "rows_loop rt prog (cat_name # rest) =
     (case map_of prog cat_name of
        None \<Rightarrow> Inl (MissingKey cat_name)
      | Some e \<Rightarrow>
          (let remaining = py_max rt (fsub rt (required e) (completed e)) (fzero rt) in
           case rows_loop rt prog rest of
             Inl err \<Rightarrow> Inl err
           | Inr rows \<Rightarrow>
               Inr (\<lparr>row_category = cat_name,
                     row_required = fround rt (required e) 3,
                     row_selected = fround rt (selected e) 3,
                     row_completed = fround rt (completed e) 3,
                     row_remaining = fround rt remaining 3\<rparr> # rows)))"

definition credit_progress_rows ::
  "'f pyrt \<Rightarrow> 'f plan \<Rightarrow> (pystr \<times> 'f) list \<Rightarrow> 'f error + 'f progress_row list"
where
  "credit_progress_rows rt p requirements =
     (case credit_progress_by_category rt p requirements of
        Inl e \<Rightarrow> Inl e
      | Inr prog \<Rightarrow>
          (let ordered = map fst requirements;
               extra = sort (filter (\<lambda>k. k \<notin> set (map fst requirements)) (map fst prog))
           in rows_loop rt prog (ordered @ extra)))"

subsection \<open>Loading a persisted document\<close>

text \<open>The document after \<^verbatim>\<open>json.load\<close> and the \<^verbatim>\<open>str()\<close>/\<^verbatim>\<open>float()\<close> conversions of its
  fields: the courses, the two plan scalars and the raw plan items.\<close>

record 'f raw_item =
  raw_course_id :: pystr
  raw_actual_semester :: pystr
  raw_gpa :: "'f gpa_arg"

fun load_items :: "'f pyrt \<Rightarrow> 'f catalog \<Rightarrow> 'f plan \<Rightarrow> 'f raw_item list \<Rightarrow> 'f error + 'f plan" where
  "load_items rt cat p [] = Inr p"
| "load_items rt cat p (it # rest) =
     (case ensure_actual_semester rt (raw_actual_semester it) of
        Inl e \<Rightarrow> Inl e
      | Inr actual_sem \<Rightarrow>
     (case validate_gpa rt (raw_gpa it) of
        Inl e \<Rightarrow> Inl e
      | Inr g \<Rightarrow>
     (case Catalog_get cat (raw_course_id it) of
        Inl e \<Rightarrow> Inl e
      | Inr _ \<Rightarrow>
          load_items rt cat
            (p\<lparr>items := items p @
                 [\<lparr>item_course_id = raw_course_id it, actual_semester = actual_sem, gpa = g\<rparr>]\<rparr>)
            rest)))"

definition load_from_config ::
  "'f pyrt \<Rightarrow> 'f course list \<Rightarrow> 'f \<Rightarrow> 'f \<Rightarrow> 'f raw_item list \<Rightarrow> 'f error + 'f catalog \<times> 'f plan"
where
  "load_from_config rt raw_courses limit req raw_items =
     (case Catalog_init rt raw_courses of
        Inl e \<Rightarrow> Inl e
      | Inr cat \<Rightarrow>
          (case load_items rt cat (EnrollmentPlan_init cat limit req) raw_items of
             Inl e \<Rightarrow> Inl e
           | Inr p \<Rightarrow> Inr (cat, p)))"

section \<open>Notions of the specification\<close>

subsection \<open>The state of a course identifier in a plan\<close>

text \<open>The per-course states of the specification. The state is read as \<^verbatim>\<open>_get_item\<close>
  reads the plan: from the first item with the identifier.\<close>

datatype enrollment = Absent | EnrolledUngraded | EnrolledGraded

definition course_state :: "'f plan \<Rightarrow> pystr \<Rightarrow> enrollment" where
  "course_state p cid =
     (case get_item p cid of
        Inl _ \<Rightarrow> Absent
      | Inr i \<Rightarrow> (case gpa i of None \<Rightarrow> EnrolledUngraded | Some _ \<Rightarrow> EnrolledGraded))"

text \<open>The three mutation operations as commands.\<close>

datatype 'f mutation = AddCourse pystr pystr | RemoveCourse pystr | SetGpa pystr "'f gpa_arg"

fun apply_mutation :: "'f pyrt \<Rightarrow> 'f plan \<Rightarrow> 'f mutation \<Rightarrow> ('f, unit) outcome" where
  "apply_mutation rt p (AddCourse cid sem) = add_course rt p cid sem"
| "apply_mutation rt p (RemoveCourse cid) = remove_course p cid"
| "apply_mutation rt p (SetGpa cid g) = set_gpa rt p cid g"

text \<open>The transitions that the specification lists: absent to ungraded, ungraded to
  graded, enrolled (either way) to absent.\<close>

definition spec_transition :: "enrollment \<Rightarrow> enrollment \<Rightarrow> bool" where
  "spec_transition s s' =
     (s = Absent \<and> s' = EnrolledUngraded \<or>
      s = EnrolledUngraded \<and> s' = EnrolledGraded \<or>
      s = EnrolledUngraded \<and> s' = Absent \<or>
      s = EnrolledGraded \<and> s' = Absent)"

subsection \<open>Sums of credits\<close>

text \<open>The total that repeated \<^verbatim>\<open>+=\<close> builds from 0.0, in list order.\<close>

definition running_total :: "'f pyrt \<Rightarrow> 'f list \<Rightarrow> 'f" where
  "running_total rt xs = foldl (fadd rt) (fzero rt) xs"

text \<open>The credits of the items scheduled in a semester, in plan order, each looked up
  in the catalog by the identifier of the item; \<open>scheduled_credits\<close> is their sum.\<close>

definition term_credits :: "'f plan \<Rightarrow> pystr \<Rightarrow> 'f list" where
  "term_credits p sem =
     concat (map (\<lambda>i. case map_of (catalog p) (item_course_id i) of
                         None \<Rightarrow> []
                       | Some c \<Rightarrow> if actual_semester i = sem then [credits c] else [])
                 (items p))"

definition scheduled_credits :: "'f pyrt \<Rightarrow> 'f plan \<Rightarrow> pystr \<Rightarrow> 'f" where
  "scheduled_credits rt p sem = fsum rt (term_credits p sem)"

text \<open>Every item of the plan names a course of the catalog. \<^verbatim>\<open>add_course\<close> and the
  loader append only such items.\<close>

definition resolved :: "'f plan \<Rightarrow> bool" where
  "resolved p = list_all (\<lambda>i. map_of (catalog p) (item_course_id i) \<noteq> None) (items p)"

subsection \<open>The batch of required courses\<close>

text \<open>The placement of a required course: its own tag when the tag is one of the
  twelve plan semesters, the season of the tag in year 4 otherwise. \<open>add_each\<close> enrolls
  a list of (course, semester) pairs with \<^verbatim>\<open>add_course\<close>, one after the other, and stops
  at the first failure with the plan as it is then. \<open>required_batch\<close> lists the courses
  of the catalog whose type is \<^verbatim>\<open>"\<close>required\<^verbatim>\<open>"\<close> and whose identifier no item of the plan
  carries, sorted by season and identifier, each with its placement.\<close>

definition placement :: "'f pyrt \<Rightarrow> 'f course \<Rightarrow> pystr" where
  "placement rt c =
     (if semester c \<in> set PLAN_SEMESTERS then semester c
      else [52, last (strip rt (semester c))])"

fun add_each :: "'f pyrt \<Rightarrow> 'f plan \<Rightarrow> (pystr \<times> pystr) list \<Rightarrow> ('f, unit) outcome" where
  "add_each rt p [] = (Inr (), p)"
| "add_each rt p ((cid, sem) # rest) =
     (case add_course rt p cid sem of
        (Inl e, p') \<Rightarrow> (Inl e, p')
      | (Inr _, p') \<Rightarrow> add_each rt p' rest)"

definition required_batch :: "'f pyrt \<Rightarrow> 'f plan \<Rightarrow> (pystr \<times> pystr) list" where
  "required_batch rt p =
     map (\<lambda>c. (course_id c, placement rt c))
       (sort_key (\<lambda>c. ([last (strip rt (semester c))], course_id c))
          (filter (\<lambda>c. course_type c = [24517, 20462]
                        \<and> course_id c \<notin> item_course_id ` set (items p))
             (map snd (catalog p))))"

subsection \<open>Credit progress\<close>

text \<open>The category under which a course counts: its category, or the default when it
  has none, trimmed, or the default again when nothing is left.\<close>

definition category_label :: "'f pyrt \<Rightarrow> 'f course \<Rightarrow> pystr" where
  "category_label rt c =
     (let s = strip rt (if category c = [] then [26410, 20998, 31867] else category c)
      in if s = [] then [26410, 20998, 31867] else s)"

text \<open>The categories of the courses of a list of items, in list order, and the credits
  that the items selected by \<open>counted\<close> bring to a category; for a plan, the list is
  the plan's items.\<close>

definition categories_of :: "'f pyrt \<Rightarrow> 'f catalog \<Rightarrow> 'f plan_item list \<Rightarrow> pystr list" where
  "categories_of rt cat its =
     concat (map (\<lambda>i. case map_of cat (item_course_id i) of
                         None \<Rightarrow> [] | Some c \<Rightarrow> [category_label rt c]) its)"

definition credits_in ::
  "'f pyrt \<Rightarrow> 'f catalog \<Rightarrow> ('f plan_item \<Rightarrow> bool) \<Rightarrow> pystr \<Rightarrow> 'f plan_item list \<Rightarrow> 'f list"
where
  "credits_in rt cat counted k its =
     concat (map (\<lambda>i. case map_of cat (item_course_id i) of
                         None \<Rightarrow> []
                       | Some c \<Rightarrow> if counted i \<and> category_label rt c = k then [credits c] else [])
                 its)"

definition enrolled_categories :: "'f pyrt \<Rightarrow> 'f plan \<Rightarrow> pystr list" where
  "enrolled_categories rt p = categories_of rt (catalog p) (items p)"

definition category_credits ::
  "'f pyrt \<Rightarrow> 'f plan \<Rightarrow> ('f plan_item \<Rightarrow> bool) \<Rightarrow> pystr \<Rightarrow> 'f list" where
  "category_credits rt p counted k = credits_in rt (catalog p) counted k (items p)"

text \<open>The entry of a category in a progress dictionary, or the entry of zeros for a
  category that the dictionary does not hold.\<close>

definition entry_of :: "'f pyrt \<Rightarrow> (pystr \<times> 'f progress) list \<Rightarrow> pystr \<Rightarrow> 'f progress" where
  "entry_of rt prog k =
     (case map_of prog k of
        None \<Rightarrow> \<lparr>required = fzero rt, selected = fzero rt, completed = fzero rt\<rparr>
      | Some e \<Rightarrow> e)"

text \<open>The row of a category: the declared requirement (0.0 for a category that the
  requirements do not declare), the credits of all the items of the category and the
  credits of its graded items, each rounded to 3 decimals; what remains is the
  difference of the rounded requirement and the rounded completed credits, or 0.0 when
  that is below 0.0. The row holds each of these rounded to 3 decimals.\<close>

definition progress_row_of ::
  "'f pyrt \<Rightarrow> 'f plan \<Rightarrow> (pystr \<times> 'f) list \<Rightarrow> pystr \<Rightarrow> 'f progress_row" where
  "progress_row_of rt p reqs k =
     (let R = fround rt (case map_of reqs k of None \<Rightarrow> fzero rt | Some r \<Rightarrow> r) 3;
          S = fround rt (running_total rt (category_credits rt p (\<lambda>i. True) k)) 3;
          C = fround rt (running_total rt (category_credits rt p (\<lambda>i. gpa i \<noteq> None) k)) 3;
          D = fsub rt R C
      in \<lparr>row_category = k,
          row_required = fround rt R 3,
          row_selected = fround rt S 3,
          row_completed = fround rt C 3,
          row_remaining = fround rt (if flt rt D (fzero rt) then fzero rt else D) 3\<rparr>)"

text \<open>Three properties of a runtime's floats: 0.0 is not below 0.0; a value that is not
  below 0.0 is not below 0.0 once rounded to 3 decimals; and rounding to 3 decimals a
  value so rounded changes nothing.\<close>

definition rounding_laws :: "'f pyrt \<Rightarrow> bool" where
  "rounding_laws rt =
     (\<not> flt rt (fzero rt) (fzero rt)
      \<and> (\<forall>x. \<not> flt rt x (fzero rt) \<longrightarrow> \<not> flt rt (fround rt x 3) (fzero rt))
      \<and> (\<forall>x. fround rt (fround rt x 3) 3 = fround rt x 3))"

subsection \<open>The weighted GPA of a subset of items\<close>

text \<open>The grade and the credits of each item of a list, the credits looked up in the
  catalog by the identifier of the item.\<close>

definition graded_credits :: "'f catalog \<Rightarrow> 'f plan_item list \<Rightarrow> ('f \<times> 'f) list" where
  "graded_credits cat sub =
     concat (map (\<lambda>i. case map_of cat (item_course_id i) of
                         None \<Rightarrow> []
                       | Some c \<Rightarrow> (case gpa i of None \<Rightarrow> [] | Some g \<Rightarrow> [(g, credits c)]))
                 sub)"

text \<open>The one algorithm of the specification, over a list of items: no items give
  (absent, 0); an ungraded item gives (absent, number of ungraded items); otherwise the
  result is the sum of grade times credits over the sum of credits, rounded to 3
  decimals, or (absent, 0) when the total of the credits is 0, that is neither below
  nor above 0.0.\<close>

definition spec_gpa :: "'f pyrt \<Rightarrow> 'f catalog \<Rightarrow> 'f plan_item list \<Rightarrow> 'f option \<times> nat" where
  "spec_gpa rt cat sub =
     (if sub = [] then (None, 0)
      else if list_ex (\<lambda>i. gpa i = None) sub
      then (None, length (filter (\<lambda>i. gpa i = None) sub))
      else
        (let pairs = graded_credits cat sub;
             points = running_total rt (map (\<lambda>(g, c). fmul rt g c) pairs);
             total = running_total rt (map snd pairs)
         in if fle rt total (fzero rt) \<and> fle rt (fzero rt) total then (None, 0)
            else (Some (fround rt (fdiv rt points total) 3), 0)))"

text \<open>The subset of \<^verbatim>\<open>major_gpa\<close>: the items whose course has a category, trimmed, in the
  given set (by default the two major categories). The year of an item for
  \<^verbatim>\<open>yearly_gpa\<close>: \<^verbatim>\<open>int()\<close> of its semester without the last character; \<open>plan_years\<close> lists
  the years of the items of a plan in increasing order.\<close>

definition in_categories :: "'f pyrt \<Rightarrow> 'f catalog \<Rightarrow> pystr set \<Rightarrow> 'f plan_item \<Rightarrow> bool" where
  "in_categories rt cat cats i =
     (case map_of cat (item_course_id i) of
        None \<Rightarrow> False
      | Some c \<Rightarrow>
          strip rt (if category c = [] then [26410, 20998, 31867] else category c) \<in> cats)"

definition major_set :: "pystr set option \<Rightarrow> pystr set" where
  "major_set major_categories =
     (case major_categories of
        None \<Rightarrow> {[19987, 19994, 24517, 20462], [19987, 19994, 36873, 20462]}
      | Some cs \<Rightarrow> cs)"

definition item_year :: "'f pyrt \<Rightarrow> 'f plan_item \<Rightarrow> int option" where
  "item_year rt i = int_of_str rt (butlast (actual_semester i))"

definition plan_years :: "'f pyrt \<Rightarrow> 'f plan \<Rightarrow> int list" where
  "plan_years rt p =
     sorted_list_of_set
       (set (concat (map (\<lambda>i. case item_year rt i of None \<Rightarrow> [] | Some y \<Rightarrow> [y]) (items p))))"

text \<open>Two properties of a runtime's floats: 0.0 is at least 0.0, and the sum of two
  values that are at least 0.0 is at least 0.0. \<open>credits_not_negative\<close>: the credits of
  every course of the catalog are at least 0.0, as the specification requires of a
  course.\<close>

definition sum_laws :: "'f pyrt \<Rightarrow> bool" where
  "sum_laws rt =
     (fle rt (fzero rt) (fzero rt)
      \<and> (\<forall>a b. fle rt (fzero rt) a \<longrightarrow> fle rt (fzero rt) b
                 \<longrightarrow> fle rt (fzero rt) (fadd rt a b)))"

definition credits_not_negative :: "'f pyrt \<Rightarrow> 'f catalog \<Rightarrow> bool" where
  "credits_not_negative rt cat = list_all (\<lambda>(k, c). fle rt (fzero rt) (credits c)) cat"

section \<open>Example data\<close>

text \<open>An example runtime. Its strings are ASCII: blanks and the control characters 9 to
  13 are white space, \<open>0\<close> to \<open>9\<close> are the decimal digits, and \<^verbatim>\<open>int()\<close> reads a
  non-empty string of ASCII digits. Its floats are the decimal numbers with exact
  arithmetic, and a NaN: an operation on a NaN gives a NaN, a comparison with a NaN is
  false, \<^verbatim>\<open>round\<close> takes the nearest multiple of \<open>10\<^sup>-\<^sup>n\<close> (the even one at a tie) and
  \<^verbatim>\<open>sum\<close> adds from left to right. These floats are not binary floating point; the
  examples below use them only at values where binary floating point computes the
  same decimals (no tie is rounded and every result shown has at most three
  decimals). The division is by a total that is not \<^verbatim>\<open><= 0\<close> wherever the program
  divides.\<close>

datatype xfloat = Num real | NaN

fun xadd :: "xfloat \<Rightarrow> xfloat \<Rightarrow> xfloat" where
  "xadd (Num a) (Num b) = Num (a + b)"
| "xadd _ _ = NaN"

fun xsub :: "xfloat \<Rightarrow> xfloat \<Rightarrow> xfloat" where
  "xsub (Num a) (Num b) = Num (a - b)"
| "xsub _ _ = NaN"

fun xmul :: "xfloat \<Rightarrow> xfloat \<Rightarrow> xfloat" where
  "xmul (Num a) (Num b) = Num (a * b)"
| "xmul _ _ = NaN"

fun xdiv :: "xfloat \<Rightarrow> xfloat \<Rightarrow> xfloat" where
  "xdiv (Num a) (Num b) = Num (a / b)"
| "xdiv _ _ = NaN"

fun xlt :: "xfloat \<Rightarrow> xfloat \<Rightarrow> bool" where
  "xlt (Num a) (Num b) = (a < b)"
| "xlt _ _ = False"

fun xle :: "xfloat \<Rightarrow> xfloat \<Rightarrow> bool" where
  "xle (Num a) (Num b) = (a \<le> b)"
| "xle _ _ = False"

definition decimal_round :: "real \<Rightarrow> nat \<Rightarrow> real" where
  "decimal_round x n =
     (let s = x * 10 ^ n; f = \<lfloor>s\<rfloor>; d = s - of_int f in
      of_int (if d < 1 / 2 then f else if 1 / 2 < d then f + 1
              else if even f then f else f + 1) / 10 ^ n)"

fun xround :: "xfloat \<Rightarrow> nat \<Rightarrow> xfloat" where
  "xround (Num a) n = Num (decimal_round a n)"
| "xround NaN n = NaN"

fun ascii_digits :: "int \<Rightarrow> pystr \<Rightarrow> int option" where
  "ascii_digits acc [] = Some acc"
| "ascii_digits acc (d # ds) =
     (if 48 \<le> d \<and> d \<le> 57 then ascii_digits (10 * acc + int (d - 48)) ds else None)"

definition ascii_rt :: "xfloat pyrt" where
  "ascii_rt = \<lparr>is_space = (\<lambda>c. c = 32 \<or> (9 \<le> c \<and> c \<le> 13)),
               is_decimal = (\<lambda>c. 48 \<le> c \<and> c \<le> 57),
               int_of_str = (\<lambda>s. if s = [] then None else ascii_digits 0 s),
               fzero = Num 0, ffour = Num 4,
               fadd = xadd, fsub = xsub, fmul = xmul, fdiv = xdiv,
               flt = xlt, fle = xle,
               fsum = foldl xadd (Num 0),
               fround = xround\<rparr>"

text \<open>Course \<^verbatim>\<open>"A1"\<close>: required, 3 credits, offered in autumn (season-only tag).
  Course \<^verbatim>\<open>"B1"\<close>: required, 2 credits, offered in autumn (season-only tag).\<close>

definition ex_A1 :: "xfloat course" where
  "ex_A1 = \<lparr>course_id = [65, 49], name = [65], course_type = REQUIRED, credits = Num 3,
            semester = [qiu], hours = None, category = UNCATEGORIZED\<rparr>"

definition ex_B1 :: "xfloat course" where
  "ex_B1 = \<lparr>course_id = [66, 49], name = [66], course_type = REQUIRED, credits = Num 2,
            semester = [qiu], hours = None, category = UNCATEGORIZED\<rparr>"

definition ex_catalog :: "xfloat catalog" where
  "ex_catalog = [([65, 49], ex_A1), ([66, 49], ex_B1)]"

definition ex_item :: "pystr \<Rightarrow> pystr \<Rightarrow> xfloat option \<Rightarrow> xfloat plan_item" where
  "ex_item cid sem g = \<lparr>item_course_id = cid, actual_semester = sem, gpa = g\<rparr>"

definition ex_plan :: "xfloat \<Rightarrow> xfloat plan_item list \<Rightarrow> xfloat plan" where
  "ex_plan limit its =
     \<lparr>catalog = ex_catalog, term_credit_limit = limit, elective_credit_requirement = Num 15,
      items = its\<rparr>"

text \<open>Course \<^verbatim>\<open>"Y5"\<close>: required, 2 credits, tagged for the autumn of year 5.
  Course \<^verbatim>\<open>"S2"\<close>: required, 4 credits, tagged for the spring of year 2.
  Course \<^verbatim>\<open>"G1"\<close>: elective, 1 credit, offered in autumn, in the category
  \<^verbatim>\<open>"G"\<close>.
  Course \<^verbatim>\<open>"M1"\<close>: elective, 2.0004 credits, offered in spring, in the elective
  major category, written with a blank before and after.\<close>

definition ex_Y5 :: "xfloat course" where
  "ex_Y5 = \<lparr>course_id = [89, 53], name = [89], course_type = REQUIRED, credits = Num 2,
            semester = [53, qiu], hours = None, category = UNCATEGORIZED\<rparr>"

definition ex_S2 :: "xfloat course" where
  "ex_S2 = \<lparr>course_id = [83, 50], name = [83], course_type = REQUIRED, credits = Num 4,
            semester = [50, chun], hours = None, category = UNCATEGORIZED\<rparr>"

definition ex_G1 :: "xfloat course" where
  "ex_G1 = \<lparr>course_id = [71, 49], name = [71], course_type = ELECTIVE, credits = Num 1,
            semester = [qiu], hours = None, category = [71]\<rparr>"

definition ex_M1 :: "xfloat course" where
  "ex_M1 = \<lparr>course_id = [77, 49], name = [77], course_type = ELECTIVE,
            credits = Num (20004 / 10000), semester = [chun], hours = None,
            category = [32, 19987, 19994, 36873, 20462, 32]\<rparr>"

text \<open>A catalog of the four required courses and the elective \<^verbatim>\<open>"G1"\<close>, and a catalog of
  \<^verbatim>\<open>"B1"\<close> and the two electives.\<close>

definition ex_catalog5 :: "xfloat catalog" where
  "ex_catalog5 = [([66, 49], ex_B1), ([71, 49], ex_G1), ([65, 49], ex_A1), ([83, 50], ex_S2),
                  ([89, 53], ex_Y5)]"

definition ex_plan5 :: "xfloat plan_item list \<Rightarrow> xfloat plan" where
  "ex_plan5 its =
     \<lparr>catalog = ex_catalog5, term_credit_limit = Num 30, elective_credit_requirement = Num 15,
      items = its\<rparr>"

definition ex_plan_g :: "xfloat plan_item list \<Rightarrow> xfloat plan" where
  "ex_plan_g its =
     \<lparr>catalog = [([66, 49], ex_B1), ([71, 49], ex_G1), ([77, 49], ex_M1)],
      term_credit_limit = Num 30, elective_credit_requirement = Num 15, items = its\<rparr>"

lemmas float_defs = py_max_def decimal_round_def Let_def

lemmas string_defs = strip_def ACTUAL_SEM_RE_def COURSE_SEM_RE_def season_char_def
  year_digits_def qiu_def chun_def xia_def SEASONS_def PLAN_SEMESTERS_def extract_season_def
  ensure_actual_semester_def season_of_actual_semester_def endswith_def

lemmas example_defs = ascii_rt_def ex_A1_def ex_B1_def ex_catalog_def ex_item_def ex_plan_def
  REQUIRED_def ELECTIVE_def UNCATEGORIZED_def EnrollmentPlan_init_def

lemmas example5_defs = ex_S2_def ex_Y5_def ex_G1_def ex_catalog5_def ex_plan5_def

lemmas eval_defs = add_course_def has_course_def Catalog_get_def semester_credits_def
  credits_of_def py_sum_def auto_add_all_required_def required_courses_def auto_target_def

lemmas gpa_defs = semester_gpa_def overall_gpa_def major_gpa_def yearly_gpa_def
  spec_gpa_def graded_credits_def running_total_def category_or_default_def
  MAJOR_CATEGORIES_def major_set_def in_categories_def item_year_def plan_years_def
  ex_G1_def ex_M1_def ex_plan_g_def

section \<open>Facts about the model\<close>

subsection \<open>Lists, strings and semesters\<close>

lemma filter_same_length: "length (filter P xs) = length xs \<Longrightarrow> filter P xs = xs"
proof (induction xs)
  case Nil
  then show ?case by simp
next
  case (Cons x xs)
  show ?case
  proof (cases "P x")
    case True
    with Cons show ?thesis by simp
  next
    case False
    have "length (filter P xs) \<le> length xs" by (rule length_filter_le)
    with False Cons.prems show ?thesis by simp
  qed
qed

lemma has_course_iff: "has_course p cid \<longleftrightarrow> cid \<in> item_course_id ` set (items p)"
  by (auto simp: has_course_def list_ex_iff)

lemma has_course_items_cong: "items p = items q \<Longrightarrow> has_course p cid = has_course q cid"
  by (simp add: has_course_def)

lemma strip_idem: "strip rt (strip rt s) = strip rt s"
proof -
  let ?P = "is_space rt"
  let ?t = "dropWhile ?P s"
  let ?r = "dropWhile ?P (rev ?t)"
  have r: "dropWhile ?P ?r = ?r" by (simp add: dropWhile_idem)
  have "dropWhile ?P (rev ?r) = rev ?r"
  proof (cases "?r = []")
    case True
    show ?thesis by (simp only: True rev.simps dropWhile.simps)
  next
    case False
    then have "rev ?t \<noteq> []" by (metis dropWhile.simps(1))
    then have t: "?t \<noteq> []" by simp
    have nP: "\<not> ?P (hd ?t)" using t by (rule hd_dropWhile)
    obtain k where k: "?r = drop k (rev ?t)"
      by (metis dropWhile_eq_drop)
    have "rev ?r = take (length ?t - k) ?t"
      using k by (simp add: rev_drop)
    moreover have "length ?t - k \<noteq> 0"
      using False k by auto
    ultimately have "hd (rev ?r) = hd ?t"
      by (metis hd_take neq0_conv)
    with nP have "\<not> ?P (hd (rev ?r))" by simp
    then show ?thesis by (simp add: dropWhile_eq_self_iff)
  qed
  then show ?thesis by (simp add: strip_def r)
qed

lemma ensure_actual_semester_Inr:
  "ensure_actual_semester rt sem = Inr s \<longleftrightarrow> s = strip rt sem \<and> ACTUAL_SEM_RE rt s"
  by (auto simp: ensure_actual_semester_def Let_def)

lemma ensure_actual_semester_idem:
  "ensure_actual_semester rt sem = Inr s \<Longrightarrow> ensure_actual_semester rt s = Inr s"
  by (auto simp: ensure_actual_semester_def Let_def strip_idem split: if_splits)

lemma season_of_ensured:
  "ensure_actual_semester rt sem = Inr s \<Longrightarrow> season_of_actual_semester rt s = Inr [last s]"
proof -
  assume a: "ensure_actual_semester rt sem = Inr s"
  then have "s \<noteq> []"
    by (auto simp: ensure_actual_semester_Inr ACTUAL_SEM_RE_def)
  with ensure_actual_semester_idem[OF a] show ?thesis
    by (simp add: season_of_actual_semester_def)
qed

subsection \<open>Outcomes of the mutation operations\<close>

lemma remove_course_Inl:
  "remove_course p cid = (Inl e, p') \<Longrightarrow> e = NotEnrolled \<and> p' = p \<and> \<not> has_course p cid"
proof -
  assume a: "remove_course p cid = (Inl e, p')"
  let ?f = "filter (\<lambda>i. item_course_id i \<noteq> cid) (items p)"
  from a have len: "length ?f = length (items p)" and e: "e = NotEnrolled"
    and p': "p' = p\<lparr>items := ?f\<rparr>"
    by (auto simp: remove_course_def Let_def split: if_splits)
  from len have eq: "?f = items p" by (rule filter_same_length)
  then have "\<forall>i \<in> set (items p). item_course_id i \<noteq> cid"
    by (simp add: filter_id_conv)
  with e p' eq show ?thesis by (auto simp: has_course_iff)
qed

lemma remove_course_Inr:
  "remove_course p cid = (Inr x, p') \<Longrightarrow>
     p' = p\<lparr>items := filter (\<lambda>i. item_course_id i \<noteq> cid) (items p)\<rparr> \<and> has_course p cid"
proof -
  assume a: "remove_course p cid = (Inr x, p')"
  let ?f = "filter (\<lambda>i. item_course_id i \<noteq> cid) (items p)"
  from a have len: "length ?f \<noteq> length (items p)" and p': "p' = p\<lparr>items := ?f\<rparr>"
    by (auto simp: remove_course_def Let_def split: if_splits)
  from len have "?f \<noteq> items p" by auto
  then have "\<not> (\<forall>i \<in> set (items p). item_course_id i \<noteq> cid)"
    by (simp add: filter_id_conv)
  with p' show ?thesis by (auto simp: has_course_iff)
qed

lemma add_course_Inl: "add_course rt p cid sem = (Inl e, p') \<Longrightarrow> p' = p"
  by (auto simp: add_course_def split: sum.splits if_splits)

lemma add_course_Inr:
  "add_course rt p cid sem = (Inr x, p') \<Longrightarrow>
     \<not> has_course p cid \<and>
     (\<exists>s. ensure_actual_semester rt sem = Inr s \<and>
          p' = p\<lparr>items := items p @ [\<lparr>item_course_id = cid, actual_semester = s, gpa = None\<rparr>]\<rparr>)"
  by (auto simp: add_course_def split: sum.splits if_splits)

lemma set_gpa_Inl: "set_gpa rt p cid g = (Inl e, p') \<Longrightarrow> p' = p"
  by (auto simp: set_gpa_def split: sum.splits)

subsection \<open>The item and the state of a course\<close>

lemma find_append_other:
  "\<not> P x \<Longrightarrow> find P (xs @ [x]) = find P xs"
  by (induction xs) auto

lemma find_append_new:
  "\<forall>y \<in> set xs. \<not> P y \<Longrightarrow> P x \<Longrightarrow> find P (xs @ [x]) = Some x"
  by (induction xs) auto

lemma find_filter_other:
  "(\<And>x. P x \<Longrightarrow> Q x) \<Longrightarrow> find P (filter Q xs) = find P xs"
  by (induction xs) auto

lemma find_filter_none:
  "(\<And>x. Q x \<Longrightarrow> \<not> P x) \<Longrightarrow> find P (filter Q xs) = None"
  by (induction xs) auto

lemma find_assign_gpa_other:
  "cid' \<noteq> cid \<Longrightarrow>
     find (\<lambda>i. item_course_id i = cid') (assign_gpa cid g xs)
       = find (\<lambda>i. item_course_id i = cid') xs"
  by (induction xs) auto

lemma find_assign_gpa_same:
  "find (\<lambda>i. item_course_id i = cid) (assign_gpa cid g xs)
     = map_option (\<lambda>i. i\<lparr>gpa := g\<rparr>) (find (\<lambda>i. item_course_id i = cid) xs)"
  by (induction xs) auto

lemma find_SomeD: "find P xs = Some x \<Longrightarrow> P x \<and> x \<in> set xs"
  by (induction xs) (auto split: if_splits)

lemma get_item_Inr:
  "get_item p cid = Inr i \<Longrightarrow> item_course_id i = cid \<and> i \<in> set (items p) \<and> has_course p cid"
  by (auto simp: get_item_def has_course_iff split: option.splits dest!: find_SomeD)

lemma get_item_Inl: "get_item p cid = Inl e \<Longrightarrow> e = NotEnrolled \<and> \<not> has_course p cid"
  by (auto simp: get_item_def has_course_iff find_None_iff split: option.splits)

lemma get_item_not_enrolled: "\<not> has_course p cid \<Longrightarrow> get_item p cid = Inl NotEnrolled"
  by (auto simp: get_item_def has_course_iff find_None_iff split: option.splits)

lemma get_item_enrolled: "has_course p cid \<Longrightarrow> \<exists>i. get_item p cid = Inr i"
  by (cases "get_item p cid") (auto dest: get_item_Inl)

lemma course_state_Absent: "course_state p cid = Absent \<longleftrightarrow> \<not> has_course p cid"
  by (auto simp: course_state_def split: sum.splits option.splits
        dest: get_item_Inl get_item_not_enrolled get_item_Inr)

lemma course_state_add_other:
  "cid' \<noteq> cid \<Longrightarrow>
     course_state (p\<lparr>items := items p @ [\<lparr>item_course_id = cid, actual_semester = s, gpa = g\<rparr>]\<rparr>) cid'
       = course_state p cid'"
  by (simp add: course_state_def get_item_def find_append_other)

lemma course_state_add_same:
  "\<not> has_course p cid \<Longrightarrow>
     course_state (p\<lparr>items := items p @ [\<lparr>item_course_id = cid, actual_semester = s, gpa = None\<rparr>]\<rparr>) cid
       = EnrolledUngraded"
proof -
  assume "\<not> has_course p cid"
  then have "\<forall>y \<in> set (items p). \<not> item_course_id y = cid"
    by (auto simp: has_course_iff)
  then have "find (\<lambda>i. item_course_id i = cid)
      (items p @ [\<lparr>item_course_id = cid, actual_semester = s, gpa = None\<rparr>])
      = Some \<lparr>item_course_id = cid, actual_semester = s, gpa = None\<rparr>"
    by (rule find_append_new) simp
  then show ?thesis by (simp add: course_state_def get_item_def)
qed

lemma course_state_remove_other:
  "cid' \<noteq> cid \<Longrightarrow>
     course_state (p\<lparr>items := filter (\<lambda>i. item_course_id i \<noteq> cid) (items p)\<rparr>) cid'
       = course_state p cid'"
  by (simp add: course_state_def get_item_def find_filter_other)

lemma course_state_remove_same:
  "course_state (p\<lparr>items := filter (\<lambda>i. item_course_id i \<noteq> cid) (items p)\<rparr>) cid = Absent"
  by (simp add: course_state_def get_item_def find_filter_none)

lemma course_state_set_other:
  "cid' \<noteq> cid \<Longrightarrow>
     course_state (p\<lparr>items := assign_gpa cid g (items p)\<rparr>) cid' = course_state p cid'"
  by (simp add: course_state_def get_item_def find_assign_gpa_other)

lemma course_state_set_same:
  "has_course p cid \<Longrightarrow>
     course_state (p\<lparr>items := assign_gpa cid g (items p)\<rparr>) cid
       = (case g of None \<Rightarrow> EnrolledUngraded | Some _ \<Rightarrow> EnrolledGraded)"
  by (drule get_item_enrolled)
     (auto simp: course_state_def get_item_def find_assign_gpa_same split: option.splits)

lemma set_gpa_Inr:
  "set_gpa rt p cid g = (Inr x, p') \<Longrightarrow>
     has_course p cid \<and> (\<exists>v. validate_gpa rt g = Inr v \<and> p' = p\<lparr>items := assign_gpa cid v (items p)\<rparr>)"
  by (auto simp: set_gpa_def split: sum.splits dest: get_item_Inr)



subsection \<open>What the batch appends\<close>




subsection \<open>The errors of the checks of \<^verbatim>\<open>add_course\<close>\<close>

lemma ensure_actual_semester_Inl:
  "ensure_actual_semester rt sem = Inl e \<Longrightarrow> e = InvalidActualSemester (strip rt sem)"
  by (auto simp: ensure_actual_semester_def Let_def split: if_splits)

lemma Catalog_get_Inl: "Catalog_get cat cid = Inl e \<Longrightarrow> e = CourseNotFound cid"
  by (auto simp: Catalog_get_def split: option.splits)

lemma extract_season_Inl:
  "extract_season rt s = Inl e \<Longrightarrow> e = InvalidSemesterTag s \<or> (\<exists>x. e = InvalidSeason x)"
  by (auto simp: extract_season_def split: option.splits if_splits)

lemma credits_of_Inl: "Catalog_get cat (item_course_id i) = Inl e \<Longrightarrow> credits_of cat i = Inl e"
  by (simp add: credits_of_def)

lemma credits_of_Inr:
  "Catalog_get cat (item_course_id i) = Inr c \<Longrightarrow> credits_of cat i = Inr (credits c)"
  by (simp add: credits_of_def)

lemma gen_values_credits_Inl:
  "gen_values (map (credits_of cat) its) = Inl e \<Longrightarrow> \<exists>x. e = CourseNotFound x"
proof (induction its)
  case Nil
  then show ?case by simp
next
  case (Cons i its)
  show ?case
  proof (cases "Catalog_get cat (item_course_id i)")
    case (Inl e')
    with Cons.prems have "e = e'" by (simp add: credits_of_Inl)
    with Inl show ?thesis by (auto dest: Catalog_get_Inl)
  next
    case (Inr c)
    with Cons.prems have "gen_values (map (credits_of cat) its) = Inl e"
      by (simp add: credits_of_Inr split: sum.splits)
    then show ?thesis by (rule Cons.IH)
  qed
qed

lemma py_sum_credits_Inl:
  "py_sum rt (map (credits_of cat) its) = Inl e \<Longrightarrow> \<exists>x. e = CourseNotFound x"
  by (auto simp: py_sum_def split: sum.splits dest: gen_values_credits_Inl)

lemma semester_credits_Inl:
  "semester_credits rt p s = Inl e \<Longrightarrow>
     (\<exists>x. e = InvalidActualSemester x) \<or> (\<exists>x. e = CourseNotFound x)"
  by (auto simp: semester_credits_def split: sum.splits
        dest: ensure_actual_semester_Inl py_sum_credits_Inl)

lemma semester_credits_ensured:
  "ensure_actual_semester rt sem = Inr s \<Longrightarrow>
     semester_credits rt p s
       = py_sum rt (map (credits_of (catalog p)) (filter (\<lambda>i. actual_semester i = s) (items p)))"
  by (simp add: semester_credits_def ensure_actual_semester_idem)

lemma add_course_checked:
  assumes "ensure_actual_semester rt sem = Inr s" "Catalog_get (catalog p) cid = Inr c"
    "\<not> has_course p cid" "extract_season rt (semester c) = Inr [last s]"
    "semester_credits rt p s = Inr current"
  shows "add_course rt p cid sem =
     (if flt rt (term_credit_limit p) (fadd rt current (credits c))
      then (Inl (CreditCapExceeded s current (credits c) (term_credit_limit p)), p)
      else (Inr (), p\<lparr>items := items p @
              [\<lparr>item_course_id = cid, actual_semester = s, gpa = None\<rparr>]\<rparr>))"
  using assms by (simp add: add_course_def season_of_ensured)

lemma add_course_cap_only:
  assumes "add_course rt p cid sem = (Inl (CreditCapExceeded s current incoming limit), p')"
  shows "ensure_actual_semester rt sem = Inr s \<and> \<not> has_course p cid
     \<and> (\<exists>c. Catalog_get (catalog p) cid = Inr c
             \<and> extract_season rt (semester c) = Inr [last s] \<and> incoming = credits c)
     \<and> semester_credits rt p s = Inr current \<and> limit = term_credit_limit p
     \<and> flt rt limit (fadd rt current incoming) \<and> p' = p"
proof -
  obtain s' where s': "ensure_actual_semester rt sem = Inr s'"
    using assms by (cases "ensure_actual_semester rt sem")
      (auto simp: add_course_def dest: ensure_actual_semester_Inl)
  obtain c where c: "Catalog_get (catalog p) cid = Inr c"
    using assms s' by (cases "Catalog_get (catalog p) cid")
      (auto simp: add_course_def dest: Catalog_get_Inl)
  have n: "\<not> has_course p cid"
    using assms s' c by (auto simp: add_course_def)
  obtain cs where cs: "extract_season rt (semester c) = Inr cs"
    using assms s' c n by (cases "extract_season rt (semester c)")
      (auto simp: add_course_def dest: extract_season_Inl)
  have ts: "season_of_actual_semester rt s' = Inr [last s']"
    using s' by (rule season_of_ensured)
  have m: "cs = [last s']"
    using assms s' c n cs ts by (auto simp: add_course_def split: if_splits)
  obtain t where t: "semester_credits rt p s' = Inr t"
    using assms s' c n cs ts m by (cases "semester_credits rt p s'")
      (auto simp: add_course_def dest: semester_credits_Inl)
  from assms show ?thesis
    unfolding add_course_checked[OF s' c n cs[unfolded m] t]
    using s' c n cs m t by (auto split: if_splits)
qed

subsection \<open>The credits scheduled in a semester\<close>

lemma gen_values_term_credits:
  "gen_values (map (credits_of cat) (filter (\<lambda>i. actual_semester i = s) its)) = Inr vs \<Longrightarrow>
     vs = concat (map (\<lambda>i. case map_of cat (item_course_id i) of
                              None \<Rightarrow> []
                            | Some c \<Rightarrow> if actual_semester i = s then [credits c] else []) its)"
proof (induction its arbitrary: vs)
  case Nil
  then show ?case by simp
next
  case (Cons i its)
  show ?case
  proof (cases "actual_semester i = s")
    case False
    with Cons show ?thesis by (simp split: option.splits)
  next
    case True
    show ?thesis
    proof (cases "map_of cat (item_course_id i)")
      case None
      then have "credits_of cat i = Inl (CourseNotFound (item_course_id i))"
        by (simp add: credits_of_def Catalog_get_def)
      with True Cons.prems show ?thesis by simp
    next
      case (Some c)
      then have "credits_of cat i = Inr (credits c)"
        by (simp add: credits_of_def Catalog_get_def)
      with True Cons.prems obtain ws where
        ws: "gen_values (map (credits_of cat) (filter (\<lambda>i. actual_semester i = s) its)) = Inr ws"
        and vs: "vs = credits c # ws"
        by (auto split: sum.splits)
      from Cons.IH[OF ws] vs True Some show ?thesis by simp
    qed
  qed
qed

lemma gen_values_resolved:
  "list_all (\<lambda>i. map_of cat (item_course_id i) \<noteq> None) its \<Longrightarrow>
     \<exists>vs. gen_values (map (credits_of cat) (filter P its)) = Inr vs"
proof (induction its)
  case Nil
  then show ?case by simp
next
  case (Cons i its)
  then obtain vs where vs: "gen_values (map (credits_of cat) (filter P its)) = Inr vs"
    by auto
  from Cons.prems obtain c where "map_of cat (item_course_id i) = Some c" by auto
  then have "credits_of cat i = Inr (credits c)"
    by (simp add: credits_of_def Catalog_get_def)
  with vs show ?case by (cases "P i") simp_all
qed

lemma semester_credits_scheduled:
  assumes "ensure_actual_semester rt sem = Inr s" "semester_credits rt p s = Inr current"
  shows "current = scheduled_credits rt p s"
proof -
  from assms have "py_sum rt (map (credits_of (catalog p))
      (filter (\<lambda>i. actual_semester i = s) (items p))) = Inr current"
    by (simp add: semester_credits_ensured)
  then obtain vs where
    vs: "gen_values (map (credits_of (catalog p))
           (filter (\<lambda>i. actual_semester i = s) (items p))) = Inr vs"
    and c: "current = fsum rt vs"
    by (auto simp: py_sum_def split: sum.splits)
  from gen_values_term_credits[OF vs] c show ?thesis
    by (simp add: scheduled_credits_def term_credits_def)
qed

lemma semester_credits_resolved:
  assumes "ensure_actual_semester rt sem = Inr s" "resolved p"
  shows "semester_credits rt p s = Inr (scheduled_credits rt p s)"
proof -
  from assms(2) obtain vs where
    "gen_values (map (credits_of (catalog p))
       (filter (\<lambda>i. actual_semester i = s) (items p))) = Inr vs"
    unfolding resolved_def by (blast dest: gen_values_resolved)
  then have "semester_credits rt p s = Inr (fsum rt vs)"
    using assms(1) by (simp add: semester_credits_ensured py_sum_def)
  with semester_credits_scheduled[OF assms(1) this] show ?thesis by simp
qed

lemma Catalog_get_map_of:
  "Catalog_get cat cid = Inr c \<longleftrightarrow> map_of cat cid = Some c"
  by (auto simp: Catalog_get_def split: option.splits)

subsection \<open>Constructed catalogs\<close>

lemma extract_season_Inr:
  "extract_season rt s = Inr x \<Longrightarrow>
     x = [last (strip rt s)] \<and> strip rt s \<noteq> [] \<and> season_char (last (strip rt s))"
  by (auto simp: extract_season_def COURSE_SEM_RE_def split: option.splits if_splits)

lemma Catalog_loop_Inr:
  "Catalog_loop rt acc cs = Inr cat \<Longrightarrow> distinct (map fst acc) \<Longrightarrow>
     cat = acc @ map (\<lambda>c. (course_id c, c)) cs
     \<and> distinct (map fst acc @ map course_id cs)
     \<and> (\<forall>c \<in> set cs. \<exists>x. extract_season rt (semester c) = Inr x)"
proof (induction cs arbitrary: acc)
  case Nil
  then show ?case by simp
next
  case (Cons c cs)
  from Cons.prems(1) have n: "course_id c \<notin> set (map fst acc)"
    by (auto split: if_splits)
  with Cons.prems(1) obtain x where x: "extract_season rt (semester c) = Inr x"
    by (cases "extract_season rt (semester c)") auto
  with n Cons.prems(1) have l: "Catalog_loop rt (acc @ [(course_id c, c)]) cs = Inr cat"
    by simp
  from n Cons.prems(2) have d: "distinct (map fst (acc @ [(course_id c, c)]))" by simp
  from Cons.IH[OF l d] have c: "cat = (acc @ [(course_id c, c)]) @ map (\<lambda>c. (course_id c, c)) cs"
    and d': "distinct (map fst (acc @ [(course_id c, c)]) @ map course_id cs)"
    and v: "\<forall>c \<in> set cs. \<exists>x. extract_season rt (semester c) = Inr x"
    by simp_all
  from c have "cat = acc @ map (\<lambda>c. (course_id c, c)) (c # cs)" by simp
  moreover from d' have "distinct (map fst acc @ map course_id (c # cs))" by simp
  moreover from v x have "\<forall>c \<in> set (c # cs). \<exists>x. extract_season rt (semester c) = Inr x"
    by simp
  ultimately show ?case by blast
qed

lemma Catalog_init_Inr:
  "Catalog_init rt cs = Inr cat \<Longrightarrow>
     cat = map (\<lambda>c. (course_id c, c)) cs \<and> distinct (map course_id cs)
     \<and> (\<forall>c \<in> set cs. \<exists>x. extract_season rt (semester c) = Inr x)"
proof -
  assume "Catalog_init rt cs = Inr cat"
  then have "Catalog_loop rt [] cs = Inr cat" by (simp add: Catalog_init_def)
  from Catalog_loop_Inr[OF this] show ?thesis by simp
qed

lemma required_courses_init:
  "Catalog_init rt cs = Inr cat \<Longrightarrow>
     required_courses cat = filter (\<lambda>c. course_type c = REQUIRED) cs"
  by (drule Catalog_init_Inr) (simp add: required_courses_def comp_def)

subsection \<open>Sorting the required courses\<close>

lemma season_keys_valid:
  "\<forall>c \<in> set cs. \<exists>x. extract_season rt (semester c) = Inr x \<Longrightarrow>
     season_keys rt cs
       = Inr (map (\<lambda>c. (([last (strip rt (semester c))], course_id c), c)) cs)"
proof (induction cs)
  case Nil
  then show ?case by simp
next
  case (Cons c cs)
  then obtain x where "extract_season rt (semester c) = Inr x" by auto
  moreover from this have "x = [last (strip rt (semester c))]"
    by (auto dest: extract_season_Inr)
  ultimately show ?case using Cons by simp
qed

lemma insort_key_decorated:
  "insort_key fst (k c, c) (map (\<lambda>c. (k c, c)) zs) = map (\<lambda>c. (k c, c)) (insort_key k c zs)"
  by (induction zs) auto

lemma sort_key_decorated:
  "map snd (sort_key fst (map (\<lambda>c. (k c, c)) xs)) = sort_key k xs"
proof -
  have "sort_key fst (map (\<lambda>c. (k c, c)) xs) = map (\<lambda>c. (k c, c)) (sort_key k xs)"
    by (induction xs) (simp_all add: insort_key_decorated)
  then show ?thesis by (simp add: comp_def)
qed

lemma distinct_map_sort_key:
  "distinct (map f xs) \<Longrightarrow> distinct (map f (sort_key k xs))"
  by (simp add: distinct_map)

subsection \<open>The target of a required course\<close>

lemma plan_semester_actual: "s \<in> set PLAN_SEMESTERS \<Longrightarrow> ACTUAL_SEM_RE rt s"
  by (auto simp: PLAN_SEMESTERS_def ACTUAL_SEM_RE_def season_char_def year_digits_def)

lemma strip_keeps_last:
  assumes "s \<noteq> []" "\<not> is_space rt (last s)"
  shows "last (strip rt s) = last s"
proof -
  let ?P = "is_space rt"
  let ?t = "dropWhile ?P s"
  from assms have "\<exists>x \<in> set s. \<not> ?P x" by (metis last_in_set)
  then have t: "?t \<noteq> []" by (simp add: dropWhile_eq_Nil_conv)
  have "\<exists>k. ?t = drop k s" by (metis dropWhile_eq_drop)
  with t have lt: "last ?t = last s" by (metis last_drop drop_eq_Nil not_le)
  have "hd (rev ?t) = last ?t" using t by (simp add: hd_rev)
  with lt assms have "\<not> ?P (hd (rev ?t))" by simp
  then have "dropWhile ?P (rev ?t) = rev ?t" by (simp add: dropWhile_eq_self_iff)
  then show ?thesis by (simp add: strip_def lt)
qed

lemma year4_in_plan: "season_char x \<Longrightarrow> [52, x] \<in> set PLAN_SEMESTERS"
  by (auto simp: PLAN_SEMESTERS_def season_char_def)

lemma endswith_single: "endswith s [x] \<longleftrightarrow> s \<noteq> [] \<and> last s = x"
proof (cases s rule: rev_cases)
  case Nil
  then show ?thesis by (simp add: endswith_def)
next
  case (snoc ys y)
  then show ?thesis by (auto simp: endswith_def)
qed

lemma auto_target_placement:
  assumes v: "extract_season rt (semester c) = Inr x"
    and sp: "\<not> is_space rt qiu" "\<not> is_space rt chun" "\<not> is_space rt xia"
  shows "auto_target rt c = Inr (placement rt c)"
proof -
  let ?s = "semester c"
  from extract_season_Inr[OF v] have x: "x = [last (strip rt ?s)]"
    and sc: "season_char (last (strip rt ?s))" by simp_all
  show ?thesis
  proof (cases "ACTUAL_SEM_RE rt ?s")
    case True
    then have ne: "?s \<noteq> []" and ls: "season_char (last ?s)"
      by (simp_all add: ACTUAL_SEM_RE_def)
    from ls sp have "\<not> is_space rt (last ?s)" by (auto simp: season_char_def)
    with ne have keep: "last (strip rt ?s) = last ?s" by (rule strip_keeps_last)
    show ?thesis
    proof (cases "?s \<in> set PLAN_SEMESTERS")
      case in_plan: True
      with True show ?thesis by (simp add: auto_target_def placement_def)
    next
      case False
      with True ne ls keep show ?thesis
        by (auto simp: auto_target_def placement_def endswith_single season_char_def)
    qed
  next
    case False
    then have np: "?s \<notin> set PLAN_SEMESTERS" by (auto dest: plan_semester_actual)
    from sc have "[52, last (strip rt ?s)] \<in> set PLAN_SEMESTERS" by (rule year4_in_plan)
    with False np v x sc show ?thesis
      by (auto simp: auto_target_def placement_def season_char_def)
  qed
qed

lemma has_course_after_add:
  "has_course (p\<lparr>items := items p @ [\<lparr>item_course_id = cid, actual_semester = s, gpa = g\<rparr>]\<rparr>) x
     \<longleftrightarrow> has_course p x \<or> x = cid"
  by (auto simp: has_course_iff)

lemma auto_add_loop_batch:
  "distinct (map course_id cs) \<Longrightarrow>
   \<forall>c \<in> set cs. auto_target rt c = Inr (placement rt c) \<Longrightarrow>
     auto_add_loop rt p cs
       = add_each rt p (map (\<lambda>c. (course_id c, placement rt c))
                          (filter (\<lambda>c. \<not> has_course p (course_id c)) cs))"
proof (induction cs arbitrary: p)
  case Nil
  then show ?case by simp
next
  case (Cons c cs)
  from Cons.prems have d: "distinct (map course_id cs)"
    and t: "auto_target rt c = Inr (placement rt c)"
    and ts: "\<forall>c \<in> set cs. auto_target rt c = Inr (placement rt c)"
    by simp_all
  from Cons.prems(1) have ni: "course_id c \<notin> course_id ` set cs" by simp
  have nc: "\<forall>c' \<in> set cs. course_id c' \<noteq> course_id c"
  proof (intro ballI notI)
    fix c' assume "c' \<in> set cs" and "course_id c' = course_id c"
    then have "course_id c \<in> course_id ` set cs" by (metis imageI)
    with ni show False by simp
  qed
  show ?case
  proof (cases "has_course p (course_id c)")
    case True
    with Cons.IH[OF d ts, of p] show ?thesis by simp
  next
    case False
    obtain r1 p1 where a: "add_course rt p (course_id c) (placement rt c) = (r1, p1)"
      by (cases "add_course rt p (course_id c) (placement rt c)")
    show ?thesis
    proof (cases r1)
      case (Inl e)
      with False t a show ?thesis by simp
    next
      case (Inr u)
      with a add_course_Inr[of rt p "course_id c" "placement rt c" u p1] obtain s where
        p1: "p1 = p\<lparr>items := items p @
               [\<lparr>item_course_id = course_id c, actual_semester = s, gpa = None\<rparr>]\<rparr>"
        by blast
      have "filter (\<lambda>c'. \<not> has_course p1 (course_id c')) cs
          = filter (\<lambda>c'. \<not> has_course p (course_id c')) cs"
        using nc by (intro filter_cong) (auto simp: p1 has_course_after_add)
      with Cons.IH[OF d ts, of p1] False t a Inr show ?thesis by simp
    qed
  qed
qed

subsection \<open>The progress dictionary and its rows\<close>

lemma item_category_label: "item_category rt c = category_label rt c"
  by (simp add: item_category_def category_label_def category_or_default_def
        UNCATEGORIZED_def Let_def)

lemma seed_keys:
  "distinct (map fst acc) \<Longrightarrow>
     distinct (map fst (fold (\<lambda>(cat_name, req) prog. AList.update cat_name (f req) prog) reqs acc))
     \<and> fst ` set (fold (\<lambda>(cat_name, req) prog. AList.update cat_name (f req) prog) reqs acc)
         = fst ` set acc \<union> fst ` set reqs"
proof (induction reqs arbitrary: acc)
  case Nil
  then show ?case by simp
next
  case (Cons kr reqs)
  obtain k r where kr: "kr = (k, r)" by (cases kr)
  let ?acc = "AList.update k (f r) acc"
  from Cons.prems have "distinct (map fst ?acc)" by (rule distinct_update)
  from Cons.IH[OF this] show ?case
    by (auto simp: kr dom_update)
qed

lemma seed_map_of:
  "distinct (map fst reqs) \<Longrightarrow>
     map_of (fold (\<lambda>(cat_name, req) prog. AList.update cat_name (f req) prog) reqs acc) k
       = (case map_of reqs k of None \<Rightarrow> map_of acc k | Some r \<Rightarrow> Some (f r))"
proof (induction reqs arbitrary: acc)
  case Nil
  then show ?case by simp
next
  case (Cons kr reqs)
  obtain k0 r0 where kr: "kr = (k0, r0)" by (cases kr)
  from Cons.prems kr have d: "distinct (map fst reqs)" and n: "k0 \<notin> fst ` set reqs"
    by simp_all
  from n have none: "map_of reqs k0 = None" by (simp add: map_of_eq_None_iff)
  from Cons.IH[OF d, of "AList.update k0 (f r0) acc"] none show ?case
    by (auto simp: kr update_conv' split: option.splits)
qed

lemma seed_entry:
  assumes "distinct (map fst reqs)"
  shows "entry_of rt
      (fold (\<lambda>(cat_name, req) prog.
               AList.update cat_name
                 \<lparr>required = req, selected = fzero rt, completed = fzero rt\<rparr> prog) reqs []) k
    = \<lparr>required = (case map_of reqs k of None \<Rightarrow> fzero rt | Some r \<Rightarrow> r),
       selected = fzero rt, completed = fzero rt\<rparr>"
  using seed_map_of[OF assms,
      of "\<lambda>req. \<lparr>required = req, selected = fzero rt, completed = fzero rt\<rparr>" "[]" k]
  by (simp add: entry_of_def split: option.splits)

lemma progress_step_keys:
  assumes "distinct (map fst prog)"
  shows "distinct (map fst
      (AList.map_entry k f
        (if k \<notin> set (map fst prog) then AList.update k v prog else prog)))
    \<and> fst ` set (AList.map_entry k f
        (if k \<notin> set (map fst prog) then AList.update k v prog else prog))
      = insert k (fst ` set prog)"
  using assms by (auto simp: dom_map_entry dom_update distinct_map_entry distinct_update)

lemma progress_step_entry:
  "entry_of rt
     (AList.map_entry k f
        (if k \<notin> set (map fst prog)
         then AList.update k \<lparr>required = fzero rt, selected = fzero rt, completed = fzero rt\<rparr> prog
         else prog)) k'
   = (if k' = k then f (entry_of rt prog k) else entry_of rt prog k')"
proof (cases "k \<in> set (map fst prog)")
  case True
  then obtain e where "map_of prog k = Some e"
    by (cases "map_of prog k") (auto simp: map_of_eq_None_iff)
  with True show ?thesis by (simp add: entry_of_def map_of_map_entry)
next
  case False
  then have "map_of prog k = None" by (simp add: map_of_eq_None_iff)
  with False show ?thesis by (simp add: entry_of_def map_of_map_entry update_conv')
qed

lemma map_entry_entry:
  "k \<in> fst ` set prog \<Longrightarrow>
     entry_of rt (AList.map_entry k f prog) k'
       = (if k' = k then f (entry_of rt prog k) else entry_of rt prog k')"
proof -
  assume "k \<in> fst ` set prog"
  then obtain e where "map_of prog k = Some e"
    by (cases "map_of prog k") (auto simp: map_of_eq_None_iff)
  then show ?thesis by (simp add: entry_of_def map_of_map_entry)
qed

lemma progress_loop_entries:
  "progress_loop rt cat prog its = Inr prog' \<Longrightarrow> distinct (map fst prog) \<Longrightarrow>
     distinct (map fst prog')
     \<and> fst ` set prog' = fst ` set prog \<union> set (categories_of rt cat its)
     \<and> (\<forall>k. entry_of rt prog' k
            = (entry_of rt prog k)
                \<lparr>selected := foldl (fadd rt) (selected (entry_of rt prog k))
                               (credits_in rt cat (\<lambda>i. True) k its),
                 completed := foldl (fadd rt) (completed (entry_of rt prog k))
                                (credits_in rt cat (\<lambda>i. gpa i \<noteq> None) k its)\<rparr>)"
proof (induction its arbitrary: prog)
  case Nil
  then show ?case by (simp add: categories_of_def credits_in_def)
next
  case (Cons item its)
  from Cons.prems(1) obtain c where c: "Catalog_get cat (item_course_id item) = Inr c"
    by (cases "Catalog_get cat (item_course_id item)") auto
  then have mc: "map_of cat (item_course_id item) = Some c" by (simp add: Catalog_get_map_of)
  let ?k = "item_category rt c"
  let ?sel = "\<lambda>e. e\<lparr>selected := fadd rt (selected e) (credits c)\<rparr>"
  let ?cmp = "\<lambda>e. e\<lparr>completed := fadd rt (completed e) (credits c)\<rparr>"
  let ?p1 = "if ?k \<notin> set (map fst prog)
             then AList.update ?k \<lparr>required = fzero rt, selected = fzero rt, completed = fzero rt\<rparr>
                    prog
             else prog"
  let ?p2 = "AList.map_entry ?k ?sel ?p1"
  let ?p3 = "if gpa item \<noteq> None then AList.map_entry ?k ?cmp ?p2 else ?p2"
  from Cons.prems(1) c have l: "progress_loop rt cat ?p3 its = Inr prog'"
    by (simp only: progress_loop.simps sum.case Let_def)
  from progress_step_keys[OF Cons.prems(2)]
  have d2: "distinct (map fst ?p2)" and k2: "fst ` set ?p2 = insert ?k (fst ` set prog)"
    by blast+
  from d2 have d3: "distinct (map fst ?p3)" by (simp add: distinct_map_entry)
  from k2 have k3: "fst ` set ?p3 = insert ?k (fst ` set prog)" by (simp add: dom_map_entry)
  have e2: "entry_of rt ?p2 k' = (if k' = ?k then ?sel (entry_of rt prog ?k) else entry_of rt prog k')"
    for k' by (rule progress_step_entry)
  from k2 have in2: "?k \<in> fst ` set ?p2" by simp
  have e3: "entry_of rt ?p3 k'
      = (if k' = ?k
         then (if gpa item \<noteq> None then ?cmp (?sel (entry_of rt prog ?k))
               else ?sel (entry_of rt prog ?k))
         else entry_of rt prog k')" for k'
  proof (cases "gpa item \<noteq> None")
    case True
    then have "entry_of rt ?p3 k' = entry_of rt (AList.map_entry ?k ?cmp ?p2) k'" by simp
    also have "\<dots> = (if k' = ?k then ?cmp (entry_of rt ?p2 ?k) else entry_of rt ?p2 k')"
      using in2 by (rule map_entry_entry)
    finally show ?thesis using True e2 by simp
  next
    case False
    then show ?thesis using e2 by simp
  qed
  note ih = Cons.IH[OF l d3]
  from ih have d: "distinct (map fst prog')" by simp
  from ih k3 mc have ks: "fst ` set prog'
      = fst ` set prog \<union> set (categories_of rt cat (item # its))"
    by (auto simp: categories_of_def item_category_label)
  have es: "entry_of rt prog' k
            = (entry_of rt prog k)
                \<lparr>selected := foldl (fadd rt) (selected (entry_of rt prog k))
                               (credits_in rt cat (\<lambda>i. True) k (item # its)),
                 completed := foldl (fadd rt) (completed (entry_of rt prog k))
                                (credits_in rt cat (\<lambda>i. gpa i \<noteq> None) k (item # its))\<rparr>" for k
  proof -
    from ih have "entry_of rt prog' k
            = (entry_of rt ?p3 k)
                \<lparr>selected := foldl (fadd rt) (selected (entry_of rt ?p3 k))
                               (credits_in rt cat (\<lambda>i. True) k its),
                 completed := foldl (fadd rt) (completed (entry_of rt ?p3 k))
                                (credits_in rt cat (\<lambda>i. gpa i \<noteq> None) k its)\<rparr>"
      by blast
    then show ?thesis
      by (simp only: e3) (simp add: credits_in_def mc item_category_label)
  qed
  from d ks es show ?case by blast
qed

lemma progress_loop_total:
  "list_all (\<lambda>i. map_of cat (item_course_id i) \<noteq> None) its \<Longrightarrow>
     \<exists>prog'. progress_loop rt cat prog its = Inr prog'"
proof (induction its arbitrary: prog)
  case Nil
  then show ?case by simp
next
  case (Cons item its)
  then obtain c where "map_of cat (item_course_id item) = Some c" by auto
  then have "Catalog_get cat (item_course_id item) = Inr c" by (simp add: Catalog_get_map_of)
  with Cons show ?case by (simp add: Let_def)
qed

lemma map_of_rounded:
  "map_of (map (\<lambda>(k, e). (k, f e)) prog) k = map_option f (map_of prog k)"
  by (induction prog) auto

lemma by_category_total:
  "resolved p \<Longrightarrow> \<exists>prog. credit_progress_by_category rt p reqs = Inr prog"
proof -
  assume "resolved p"
  then have "list_all (\<lambda>i. map_of (catalog p) (item_course_id i) \<noteq> None) (items p)"
    by (simp add: resolved_def)
  from progress_loop_total[OF this, of rt
      "fold (\<lambda>(cat_name, req) prog.
               AList.update cat_name
                 \<lparr>required = req, selected = fzero rt, completed = fzero rt\<rparr> prog) reqs []"]
  obtain raw where "progress_loop rt (catalog p)
      (fold (\<lambda>(cat_name, req) prog.
               AList.update cat_name
                 \<lparr>required = req, selected = fzero rt, completed = fzero rt\<rparr> prog) reqs [])
      (items p) = Inr raw" ..
  then show ?thesis by (simp add: credit_progress_by_category_def Let_def)
qed

lemma by_category_Inr:
  assumes res: "credit_progress_by_category rt p reqs = Inr prog"
    and d: "distinct (map fst reqs)"
  shows "distinct (map fst prog)"
    and "fst ` set prog = fst ` set reqs \<union> set (enrolled_categories rt p)"
    and "k \<in> fst ` set prog \<Longrightarrow> map_of prog k = Some
            \<lparr>required = fround rt (case map_of reqs k of None \<Rightarrow> fzero rt | Some r \<Rightarrow> r) 3,
             selected = fround rt (running_total rt (category_credits rt p (\<lambda>i. True) k)) 3,
             completed =
               fround rt (running_total rt (category_credits rt p (\<lambda>i. gpa i \<noteq> None) k)) 3\<rparr>"
proof -
  let ?seed = "fold (\<lambda>(cat_name, req) prog.
                      AList.update cat_name
                        \<lparr>required = req, selected = fzero rt, completed = fzero rt\<rparr> prog)
                    reqs []"
  let ?rnd = "\<lambda>e. \<lparr>required = fround rt (required e) 3, selected = fround rt (selected e) 3,
                    completed = fround rt (completed e) 3\<rparr>"
  from res obtain raw where raw: "progress_loop rt (catalog p) ?seed (items p) = Inr raw"
    and prog: "prog = map (\<lambda>(cat_name, e). (cat_name, ?rnd e)) raw"
    by (auto simp: credit_progress_by_category_def Let_def split: sum.splits)
  have s: "distinct (map fst ?seed)" "fst ` set ?seed = fst ` set reqs"
    using seed_keys[of "[]" "\<lambda>req. \<lparr>required = req, selected = fzero rt, completed = fzero rt\<rparr>"
            reqs]
    by simp_all
  note pl = progress_loop_entries[OF raw s(1)]
  note dr = pl[THEN conjunct1]
  note kr0 = pl[THEN conjunct2, THEN conjunct1]
  note es = pl[THEN conjunct2, THEN conjunct2, THEN spec]
  from kr0 s(2) have kr: "fst ` set raw = fst ` set reqs \<union> set (enrolled_categories rt p)"
    by (simp add: enrolled_categories_def)
  have mk: "map fst prog = map fst raw" by (simp add: prog comp_def case_prod_unfold)
  then have kp: "fst ` set prog = fst ` set raw" by (metis set_map)
  from dr show "distinct (map fst prog)" by (simp only: mk)
  from kp kr show "fst ` set prog = fst ` set reqs \<union> set (enrolled_categories rt p)" by simp
  show "map_of prog k = Some
            \<lparr>required = fround rt (case map_of reqs k of None \<Rightarrow> fzero rt | Some r \<Rightarrow> r) 3,
             selected = fround rt (running_total rt (category_credits rt p (\<lambda>i. True) k)) 3,
             completed =
               fround rt (running_total rt (category_credits rt p (\<lambda>i. gpa i \<noteq> None) k)) 3\<rparr>"
    if k: "k \<in> fst ` set prog"
  proof -
    from k kp have "k \<in> fst ` set raw" by simp
    then obtain e where e: "map_of raw k = Some e"
      by (cases "map_of raw k") (auto simp: map_of_eq_None_iff)
    then have ee: "entry_of rt raw k = e" by (simp add: entry_of_def)
    have "e = \<lparr>required = (case map_of reqs k of None \<Rightarrow> fzero rt | Some r \<Rightarrow> r),
         selected = running_total rt (category_credits rt p (\<lambda>i. True) k),
         completed = running_total rt (category_credits rt p (\<lambda>i. gpa i \<noteq> None) k)\<rparr>"
      unfolding ee[symmetric] es[of k]
      by (simp add: seed_entry[OF d] running_total_def category_credits_def)
    with e show ?thesis by (simp add: prog map_of_rounded)
  qed
qed

lemma rows_loop_map:
  "\<forall>k \<in> set cats. map_of prog k = Some (E k) \<Longrightarrow>
     rows_loop rt prog cats
       = Inr (map (\<lambda>k. \<lparr>row_category = k,
                          row_required = fround rt (required (E k)) 3,
                          row_selected = fround rt (selected (E k)) 3,
                          row_completed = fround rt (completed (E k)) 3,
                          row_remaining =
                            fround rt (py_max rt (fsub rt (required (E k)) (completed (E k)))
                                         (fzero rt)) 3\<rparr>) cats)"
  by (induction cats) (simp_all add: Let_def)

lemma extra_sorted:
  assumes "distinct (map fst prog)" "fst ` set prog = fst ` set reqs \<union> set cats"
  shows "sort (filter (\<lambda>k. k \<notin> set (map fst reqs)) (map fst prog))
      = sorted_list_of_set (set cats - set (map fst reqs))"
proof -
  let ?xs = "filter (\<lambda>k. k \<notin> set (map fst reqs)) (map fst prog)"
  from assms(1) have "distinct ?xs" by simp
  then have r: "remdups ?xs = ?xs" by (rule distinct_remdups_id)
  have s: "sort ?xs = sorted_list_of_set (set ?xs)"
    by (simp only: sorted_list_of_set_sort_remdups r)
  from assms(2) have "set ?xs = set cats - set (map fst reqs)" by auto
  with s show ?thesis by (simp only:)
qed

lemma credit_progress_rows_spec:
  assumes d: "distinct (map fst reqs)" and r: "resolved p"
  shows "credit_progress_rows rt p reqs
     = Inr (map (progress_row_of rt p reqs)
              (map fst reqs
               @ sorted_list_of_set (set (enrolled_categories rt p) - set (map fst reqs))))"
proof -
  let ?E = "\<lambda>k. \<lparr>required = fround rt (case map_of reqs k of None \<Rightarrow> fzero rt | Some r \<Rightarrow> r) 3,
             selected = fround rt (running_total rt (category_credits rt p (\<lambda>i. True) k)) 3,
             completed =
               fround rt (running_total rt (category_credits rt p (\<lambda>i. gpa i \<noteq> None) k)) 3\<rparr>"
  from by_category_total[OF r] obtain prog where
    prog: "credit_progress_by_category rt p reqs = Inr prog" ..
  note dp = by_category_Inr(1)[OF prog d]
  note kp = by_category_Inr(2)[OF prog d]
  note ep = by_category_Inr(3)[OF prog d]
  let ?extra = "sort (filter (\<lambda>k. k \<notin> set (map fst reqs)) (map fst prog))"
  have ex: "?extra = sorted_list_of_set (set (enrolled_categories rt p) - set (map fst reqs))"
    using dp kp by (rule extra_sorted)
  have sub: "set (map fst reqs @ ?extra) \<subseteq> fst ` set prog" using kp by auto
  have "\<forall>k \<in> set (map fst reqs @ ?extra). map_of prog k = Some (?E k)"
  proof
    fix k assume "k \<in> set (map fst reqs @ ?extra)"
    with sub have "k \<in> fst ` set prog" by blast
    then show "map_of prog k = Some (?E k)" by (rule ep)
  qed
  from rows_loop_map[OF this]
  have "rows_loop rt prog (map fst reqs @ ?extra)
      = Inr (map (progress_row_of rt p reqs) (map fst reqs @ ?extra))"
    by (simp add: progress_row_of_def py_max_def Let_def)
  with prog ex show ?thesis
    by (simp add: credit_progress_rows_def Let_def)
qed

lemma progress_row_of_laws:
  assumes "rounding_laws rt"
  shows "row_remaining (progress_row_of rt p reqs k)
      = fround rt
          (if flt rt (fsub rt (row_required (progress_row_of rt p reqs k))
                              (row_completed (progress_row_of rt p reqs k))) (fzero rt)
           then fzero rt
           else fsub rt (row_required (progress_row_of rt p reqs k))
                        (row_completed (progress_row_of rt p reqs k))) 3"
    and "\<not> flt rt (row_remaining (progress_row_of rt p reqs k)) (fzero rt)"
    and "fround rt (row_required (progress_row_of rt p reqs k)) 3
           = row_required (progress_row_of rt p reqs k)"
    and "fround rt (row_selected (progress_row_of rt p reqs k)) 3
           = row_selected (progress_row_of rt p reqs k)"
    and "fround rt (row_completed (progress_row_of rt p reqs k)) 3
           = row_completed (progress_row_of rt p reqs k)"
    and "fround rt (row_remaining (progress_row_of rt p reqs k)) 3
           = row_remaining (progress_row_of rt p reqs k)"
proof -
  from assms have z: "\<not> flt rt (fzero rt) (fzero rt)"
    and n: "\<And>x. \<not> flt rt x (fzero rt) \<Longrightarrow> \<not> flt rt (fround rt x 3) (fzero rt)"
    and i: "\<And>x. fround rt (fround rt x 3) 3 = fround rt x 3"
    by (simp_all add: rounding_laws_def)
  show "row_remaining (progress_row_of rt p reqs k)
      = fround rt
          (if flt rt (fsub rt (row_required (progress_row_of rt p reqs k))
                              (row_completed (progress_row_of rt p reqs k))) (fzero rt)
           then fzero rt
           else fsub rt (row_required (progress_row_of rt p reqs k))
                        (row_completed (progress_row_of rt p reqs k))) 3"
    by (simp add: progress_row_of_def Let_def i)
  show "\<not> flt rt (row_remaining (progress_row_of rt p reqs k)) (fzero rt)"
    by (simp add: progress_row_of_def Let_def z n)
  show "fround rt (row_required (progress_row_of rt p reqs k)) 3
           = row_required (progress_row_of rt p reqs k)"
    by (simp add: progress_row_of_def Let_def i)
  show "fround rt (row_selected (progress_row_of rt p reqs k)) 3
           = row_selected (progress_row_of rt p reqs k)"
    by (simp add: progress_row_of_def Let_def i)
  show "fround rt (row_completed (progress_row_of rt p reqs k)) 3
           = row_completed (progress_row_of rt p reqs k)"
    by (simp add: progress_row_of_def Let_def i)
  show "fround rt (row_remaining (progress_row_of rt p reqs k)) 3
           = row_remaining (progress_row_of rt p reqs k)"
    by (simp add: progress_row_of_def Let_def i)
qed

subsection \<open>The example runtime\<close>

lemma decimal_round_grid: "\<exists>k::int. decimal_round x n = of_int k / 10 ^ n"
  by (auto simp: decimal_round_def Let_def)

lemma decimal_round_on_grid: "decimal_round (of_int k / 10 ^ n) n = of_int k / 10 ^ n"
  by (simp add: decimal_round_def Let_def)

lemma decimal_round_idem: "decimal_round (decimal_round x n) n = decimal_round x n"
proof -
  obtain k :: int where "decimal_round x n = of_int k / 10 ^ n"
    using decimal_round_grid by blast
  then show ?thesis by (simp only: decimal_round_on_grid)
qed

lemma decimal_round_nonneg: "0 \<le> x \<Longrightarrow> 0 \<le> decimal_round x n"
proof -
  assume "0 \<le> x"
  then have "0 \<le> x * 10 ^ n" by simp
  then have "0 \<le> \<lfloor>x * 10 ^ n\<rfloor>" by simp
  then show ?thesis by (auto simp: decimal_round_def Let_def)
qed

lemma ascii_rt_rounding_laws: "rounding_laws ascii_rt"
proof -
  have n: "\<not> xlt x (Num 0) \<longrightarrow> \<not> xlt (xround x 3) (Num 0)" for x
  proof (cases x)
    case (Num a)
    then show ?thesis using decimal_round_nonneg[of a 3] by (auto simp: not_less)
  next
    case NaN
    then show ?thesis by simp
  qed
  have i: "xround (xround x 3) 3 = xround x 3" for x
    by (cases x) (simp_all add: decimal_round_idem)
  from n i show ?thesis by (simp add: rounding_laws_def ascii_rt_def)
qed

lemma ascii_rt_sum_laws: "sum_laws ascii_rt"
proof -
  have "xle (Num 0) a \<longrightarrow> xle (Num 0) b \<longrightarrow> xle (Num 0) (xadd a b)" for a b
    by (cases a; cases b) simp_all
  then show ?thesis by (simp add: sum_laws_def ascii_rt_def)
qed

section \<open>The claims\<close>

subsection \<open>Removal\<close>

text \<open>
  Claim C10. When \<^verbatim>\<open>remove_course(course_id)\<close> succeeds, the plan's items are the old
  items without every item whose course identifier is \<^verbatim>\<open>course_id\<close>, not only the
  first one: no item with that identifier is left and \<^verbatim>\<open>has_course(course_id)\<close> is
  false afterwards, however many entries the collection held for it.
\<close>

theorem remove_course_deletes_every_item:
  "remove_course p cid = (Inr (), p') \<Longrightarrow>
     items p' = filter (\<lambda>i. item_course_id i \<noteq> cid) (items p)
     \<and> (\<forall>i \<in> set (items p'). item_course_id i \<noteq> cid)
     \<and> \<not> has_course p' cid"
  by (drule remove_course_Inr) (auto simp: has_course_iff)

text \<open>A plan that holds \<^verbatim>\<open>"A1"\<close> twice (first and third item): removing \<^verbatim>\<open>"A1"\<close>
  leaves only the item of \<^verbatim>\<open>"B1"\<close>.\<close>

theorem remove_course_deletes_every_item_witness:
  "remove_course
     (ex_plan (Num 30) [ex_item [65, 49] [49, qiu] None, ex_item [66, 49] [49, qiu] None,
                  ex_item [65, 49] [50, qiu] (Some (Num (7 / 2)))])
     [65, 49]
   = (Inr (), ex_plan (Num 30) [ex_item [66, 49] [49, qiu] None])
   \<and> items (ex_plan (Num 30) [ex_item [66, 49] [49, qiu] None]) = [ex_item [66, 49] [49, qiu] None]
   \<and> \<not> has_course (ex_plan (Num 30) [ex_item [66, 49] [49, qiu] None]) [65, 49]"
proof -
  have r: "remove_course
     (ex_plan (Num 30) [ex_item [65, 49] [49, qiu] None, ex_item [66, 49] [49, qiu] None,
                  ex_item [65, 49] [50, qiu] (Some (Num (7 / 2)))])
     [65, 49]
   = (Inr (), ex_plan (Num 30) [ex_item [66, 49] [49, qiu] None])"
    by (simp add: remove_course_def ex_plan_def ex_item_def Let_def)
  from remove_course_deletes_every_item[OF r] r show ?thesis
    by (simp add: ex_plan_def ex_item_def)
qed

subsection \<open>Adding and removing a course\<close>

text \<open>
  Claim C6. For every plan and every course identifier, a successful
  \<^verbatim>\<open>add_course(id, sem)\<close> (which requires that the identifier was not enrolled)
  followed by \<^verbatim>\<open>remove_course(id)\<close> succeeds and restores the plan, and with it
  \<^verbatim>\<open>total_credits()\<close> and \<^verbatim>\<open>has_course(id)\<close>, to what they were before the add.
\<close>

theorem add_then_remove_round_trip:
  "add_course rt p cid sem = (Inr (), p') \<Longrightarrow>
     \<not> has_course p cid \<and> has_course p' cid
     \<and> remove_course p' cid = (Inr (), p)
     \<and> total_credits rt (snd (remove_course p' cid)) = total_credits rt p
     \<and> has_course (snd (remove_course p' cid)) cid = has_course p cid"
proof -
  assume a: "add_course rt p cid sem = (Inr (), p')"
  from add_course_Inr[OF a] obtain s where n: "\<not> has_course p cid"
    and p': "p' = p\<lparr>items := items p @ [\<lparr>item_course_id = cid, actual_semester = s, gpa = None\<rparr>]\<rparr>"
    by blast
  from n have "filter (\<lambda>i. item_course_id i \<noteq> cid) (items p) = items p"
    by (auto simp: has_course_iff filter_id_conv)
  then have r: "remove_course p' cid = (Inr (), p)"
    by (simp add: remove_course_def Let_def p')
  have "has_course p' cid" by (simp add: p' has_course_iff)
  with n r show ?thesis by simp
qed

text \<open>Adding \<^verbatim>\<open>"B1"\<close> (2 credits) to a plan that holds \<^verbatim>\<open>"A1"\<close> (3 credits), then
  removing it: the total is 3 again and \<^verbatim>\<open>"B1"\<close> is not enrolled.\<close>

theorem add_then_remove_round_trip_witness:
  "add_course ascii_rt (ex_plan (Num 30) [ex_item [65, 49] [49, qiu] None]) [66, 49] [50, qiu]
     = (Inr (), ex_plan (Num 30) [ex_item [65, 49] [49, qiu] None, ex_item [66, 49] [50, qiu] None])
   \<and> total_credits ascii_rt (ex_plan (Num 30) [ex_item [65, 49] [49, qiu] None]) = Inr (Num 3)
   \<and> total_credits ascii_rt
       (ex_plan (Num 30) [ex_item [65, 49] [49, qiu] None, ex_item [66, 49] [50, qiu] None]) = Inr (Num 5)
   \<and> total_credits ascii_rt
       (snd (remove_course
          (ex_plan (Num 30) [ex_item [65, 49] [49, qiu] None, ex_item [66, 49] [50, qiu] None])
          [66, 49])) = Inr (Num 3)
   \<and> \<not> has_course
       (snd (remove_course
          (ex_plan (Num 30) [ex_item [65, 49] [49, qiu] None, ex_item [66, 49] [50, qiu] None])
          [66, 49])) [66, 49]"
proof -
  have a: "add_course ascii_rt (ex_plan (Num 30) [ex_item [65, 49] [49, qiu] None]) [66, 49] [50, qiu]
     = (Inr (), ex_plan (Num 30) [ex_item [65, 49] [49, qiu] None, ex_item [66, 49] [50, qiu] None])"
    by (simp add: eval_defs string_defs example_defs)
  have t0: "total_credits ascii_rt (ex_plan (Num 30) [ex_item [65, 49] [49, qiu] None]) = Inr (Num 3)"
    by (simp add: total_credits_def credits_of_def py_sum_def Catalog_get_def example_defs)
  have t1: "total_credits ascii_rt
       (ex_plan (Num 30) [ex_item [65, 49] [49, qiu] None, ex_item [66, 49] [50, qiu] None]) = Inr (Num 5)"
    by (simp add: total_credits_def credits_of_def py_sum_def Catalog_get_def example_defs)
  from add_then_remove_round_trip[OF a] a t0 t1 show ?thesis
    by simp
qed

subsection \<open>The per-course state machine\<close>

text \<open>
  Claim C2, as the specification states it, allows three kinds of transition and no
  other. The code has a fourth: \<^verbatim>\<open>set_gpa(course_id, None)\<close> clears the grade of a
  graded course, which takes it from enrolled (graded) back to enrolled (ungraded).
\<close>

theorem graded_back_to_ungraded_counterexample:
  "course_state (ex_plan (Num 30) [ex_item [65, 49] [49, qiu] (Some (Num (7 / 2)))]) [65, 49] = EnrolledGraded
   \<and> apply_mutation ascii_rt (ex_plan (Num 30) [ex_item [65, 49] [49, qiu] (Some (Num (7 / 2)))])
         (SetGpa [65, 49] NoGpa)
       = (Inr (), ex_plan (Num 30) [ex_item [65, 49] [49, qiu] None])
   \<and> course_state (ex_plan (Num 30) [ex_item [65, 49] [49, qiu] None]) [65, 49] = EnrolledUngraded
   \<and> \<not> spec_transition EnrolledGraded EnrolledUngraded"
  by (simp add: course_state_def get_item_def set_gpa_def spec_transition_def
        ex_plan_def ex_item_def)

text \<open>
  Claim C2 (amended). Under \<^verbatim>\<open>add_course\<close>, \<^verbatim>\<open>remove_course\<close> and \<^verbatim>\<open>set_gpa\<close>, whether
  the call returns or raises, the state of every course identifier either stays as
  it is or changes in one of four ways: from absent to enrolled (ungraded), by a
  successful \<^verbatim>\<open>add_course\<close> of that identifier; from enrolled (graded or not) to
  absent, by a successful \<^verbatim>\<open>remove_course\<close> of it; from enrolled (ungraded) to enrolled
  (graded), by a successful \<^verbatim>\<open>set_gpa\<close> with a value; and from enrolled (graded) to
  enrolled (ungraded), by a successful \<^verbatim>\<open>set_gpa\<close> with \<^verbatim>\<open>None\<close>. No other change is
  possible; in particular no operation takes a course from absent to enrolled (graded).
\<close>

theorem mutation_transitions:
  assumes "apply_mutation rt p m = (r, p')"
  shows "course_state p' cid = course_state p cid
     \<or> (\<exists>sem. m = AddCourse cid sem) \<and> r = Inr ()
         \<and> course_state p cid = Absent \<and> course_state p' cid = EnrolledUngraded
     \<or> m = RemoveCourse cid \<and> r = Inr ()
         \<and> course_state p cid \<noteq> Absent \<and> course_state p' cid = Absent
     \<or> (\<exists>v. m = SetGpa cid (Floatable v)) \<and> r = Inr ()
         \<and> course_state p cid = EnrolledUngraded \<and> course_state p' cid = EnrolledGraded
     \<or> m = SetGpa cid NoGpa \<and> r = Inr ()
         \<and> course_state p cid = EnrolledGraded \<and> course_state p' cid = EnrolledUngraded"
proof (cases r)
  case (Inl e)
  with assms have "p' = p"
    by (cases m) (auto dest: add_course_Inl remove_course_Inl set_gpa_Inl)
  then show ?thesis by simp
next
  case (Inr x)
  show ?thesis
  proof (cases m)
    case (AddCourse c sem)
    with assms Inr have a: "add_course rt p c sem = (Inr x, p')" by simp
    from add_course_Inr[OF a] obtain s where n: "\<not> has_course p c"
      and p': "p' = p\<lparr>items := items p @ [\<lparr>item_course_id = c, actual_semester = s, gpa = None\<rparr>]\<rparr>"
      by blast
    show ?thesis
    proof (cases "cid = c")
      case True
      with n p' AddCourse Inr show ?thesis
        by (simp add: course_state_add_same course_state_Absent)
    next
      case False
      with p' show ?thesis by (simp add: course_state_add_other)
    qed
  next
    case (RemoveCourse c)
    with assms Inr have a: "remove_course p c = (Inr x, p')" by simp
    from remove_course_Inr[OF a]
    have p': "p' = p\<lparr>items := filter (\<lambda>i. item_course_id i \<noteq> c) (items p)\<rparr>"
      and h: "has_course p c" by simp_all
    show ?thesis
    proof (cases "cid = c")
      case True
      with h p' RemoveCourse Inr show ?thesis
        by (simp add: course_state_remove_same course_state_Absent)
    next
      case False
      with p' show ?thesis by (simp add: course_state_remove_other)
    qed
  next
    case (SetGpa c g)
    with assms Inr have a: "set_gpa rt p c g = (Inr x, p')" by simp
    from set_gpa_Inr[OF a] obtain v where h: "has_course p c"
      and v: "validate_gpa rt g = Inr v" and p': "p' = p\<lparr>items := assign_gpa c v (items p)\<rparr>"
      by blast
    show ?thesis
    proof (cases "cid = c")
      case False
      with p' show ?thesis by (simp add: course_state_set_other)
    next
      case True
      from h have na: "course_state p c \<noteq> Absent" by (simp add: course_state_Absent)
      show ?thesis
      proof (cases g)
        case NoGpa
        with v have "v = None" by simp
        with h p' have "course_state p' c = EnrolledUngraded"
          by (simp add: course_state_set_same)
        with True SetGpa Inr NoGpa na show ?thesis
          by (cases "course_state p c") auto
      next
        case (Floatable w)
        with v obtain w' where "v = Some w'" by (auto split: if_splits)
        with h p' have "course_state p' c = EnrolledGraded"
          by (simp add: course_state_set_same)
        with True SetGpa Inr Floatable na show ?thesis
          by (cases "course_state p c") auto
      next
        case NotFloatable
        with v show ?thesis by simp
      qed
    qed
  qed
qed


theorem mutation_transitions_witness:
  "apply_mutation ascii_rt (ex_plan (Num 30) [ex_item [65, 49] [49, qiu] (Some (Num (7 / 2)))])
         (SetGpa [65, 49] NoGpa)
       = (Inr (), ex_plan (Num 30) [ex_item [65, 49] [49, qiu] None])
   \<and> course_state (ex_plan (Num 30) [ex_item [65, 49] [49, qiu] (Some (Num (7 / 2)))]) [65, 49] = EnrolledGraded
   \<and> course_state (ex_plan (Num 30) [ex_item [65, 49] [49, qiu] None]) [65, 49] = EnrolledUngraded"
proof -
  have r: "apply_mutation ascii_rt (ex_plan (Num 30) [ex_item [65, 49] [49, qiu] (Some (Num (7 / 2)))])
         (SetGpa [65, 49] NoGpa)
       = (Inr (), ex_plan (Num 30) [ex_item [65, 49] [49, qiu] None])"
    by (simp add: get_item_def set_gpa_def ex_plan_def ex_item_def)
  have g: "course_state (ex_plan (Num 30) [ex_item [65, 49] [49, qiu] (Some (Num (7 / 2)))]) [65, 49]
      = EnrolledGraded"
    by (simp add: course_state_def get_item_def ex_plan_def ex_item_def)
  have u: "course_state (ex_plan (Num 30) [ex_item [65, 49] [49, qiu] None]) [65, 49]
      = EnrolledUngraded"
    by (simp add: course_state_def get_item_def ex_plan_def ex_item_def)
  from mutation_transitions[OF r, of "[65, 49]"] r g u show ?thesis
    by simp
qed

subsection \<open>Setting a grade\<close>




subsection \<open>Loading a plan with a repeated course\<close>

text \<open>
  Claim C1. The loader validates each plan item's semester, grade and catalog
  membership, but it appends the item without the duplicate check of \<^verbatim>\<open>add_course\<close>:
  a document whose plan items name \<^verbatim>\<open>"A1"\<close> twice loads without an error and yields a
  plan with two items for \<^verbatim>\<open>"A1"\<close>, whereas adding \<^verbatim>\<open>"A1"\<close> at runtime to a plan that
  holds it raises the duplicate-enrollment error.
\<close>

theorem load_keeps_duplicate_items:
  "load_from_config ascii_rt [ex_A1, ex_B1] (Num 30) (Num 15)
     [\<lparr>raw_course_id = [65, 49], raw_actual_semester = [49, qiu], raw_gpa = NoGpa\<rparr>,
      \<lparr>raw_course_id = [65, 49], raw_actual_semester = [49, qiu], raw_gpa = NoGpa\<rparr>]
     = Inr (ex_catalog,
            ex_plan (Num 30) [ex_item [65, 49] [49, qiu] None, ex_item [65, 49] [49, qiu] None])
   \<and> add_course ascii_rt (ex_plan (Num 30) [ex_item [65, 49] [49, qiu] None]) [65, 49] [49, qiu]
     = (Inl (DuplicateEnrollment [65, 49] [65]), ex_plan (Num 30) [ex_item [65, 49] [49, qiu] None])"
  by (simp add: load_from_config_def Catalog_init_def eval_defs string_defs example_defs)

subsection \<open>Failing operations\<close>





subsection \<open>The credit cap\<close>

text \<open>
  Claim C5. The credits already scheduled in a semester are the sum of the credits of
  the courses of the plan's items whose actual semester is that semester (items of
  other semesters do not count). When \<^verbatim>\<open>add_course(course_id, actual_semester)\<close> raises
  the credit-cap error (a \<^verbatim>\<open>ValueError\<close>), the error carries the trimmed semester, the
  credits scheduled in it, the credits of the incoming course and the term limit; the
  scheduled credits plus the incoming credits are strictly greater than the limit, and
  the plan is unchanged. Conversely, when the earlier checks pass (the trimmed semester
  is well-formed, the course is in the catalog, it is not enrolled yet, and its season
  is the season of the semester), the call raises that error if the scheduled credits
  plus the incoming credits are greater than the limit, and otherwise (reaching the
  limit exactly included) succeeds and appends the ungraded item.
\<close>

theorem add_course_credit_cap:
  "(add_course rt p cid sem = (Inl (CreditCapExceeded s current incoming limit), p')
      \<longrightarrow> s = strip rt sem
          \<and> current = scheduled_credits rt p (strip rt sem)
          \<and> (\<exists>c. map_of (catalog p) cid = Some c \<and> incoming = credits c)
          \<and> limit = term_credit_limit p
          \<and> flt rt limit (fadd rt current incoming)
          \<and> p' = p)
   \<and> exn_class (CreditCapExceeded s current incoming limit) = ValueError
   \<and> (ACTUAL_SEM_RE rt (strip rt sem)
        \<and> map_of (catalog p) cid = Some c
        \<and> cid \<notin> item_course_id ` set (items p)
        \<and> extract_season rt (semester c) = Inr [last (strip rt sem)]
        \<and> resolved p
      \<longrightarrow> add_course rt p cid sem
            = (if flt rt (term_credit_limit p)
                    (fadd rt (scheduled_credits rt p (strip rt sem)) (credits c))
               then (Inl (CreditCapExceeded (strip rt sem) (scheduled_credits rt p (strip rt sem))
                            (credits c) (term_credit_limit p)), p)
               else (Inr (), p\<lparr>items := items p @
                       [\<lparr>item_course_id = cid, actual_semester = strip rt sem, gpa = None\<rparr>]\<rparr>)))"
proof -
  have only: "s = strip rt sem
          \<and> current = scheduled_credits rt p (strip rt sem)
          \<and> (\<exists>c. map_of (catalog p) cid = Some c \<and> incoming = credits c)
          \<and> limit = term_credit_limit p
          \<and> flt rt limit (fadd rt current incoming)
          \<and> p' = p"
    if a: "add_course rt p cid sem = (Inl (CreditCapExceeded s current incoming limit), p')"
  proof -
    from add_course_cap_only[OF a] obtain c' where
      s: "ensure_actual_semester rt sem = Inr s" and
      c': "Catalog_get (catalog p) cid = Inr c'" "incoming = credits c'" and
      t: "semester_credits rt p s = Inr current" and
      l: "limit = term_credit_limit p" "flt rt limit (fadd rt current incoming)" "p' = p"
      by blast
    from s have ss: "s = strip rt sem" by (simp add: ensure_actual_semester_Inr)
    from semester_credits_scheduled[OF s t] ss
    have "current = scheduled_credits rt p (strip rt sem)" by simp
    moreover from c' have "\<exists>c. map_of (catalog p) cid = Some c \<and> incoming = credits c"
      by (auto simp: Catalog_get_map_of)
    ultimately show ?thesis using ss l by simp
  qed
  have checked: "add_course rt p cid sem
            = (if flt rt (term_credit_limit p)
                    (fadd rt (scheduled_credits rt p (strip rt sem)) (credits c))
               then (Inl (CreditCapExceeded (strip rt sem) (scheduled_credits rt p (strip rt sem))
                            (credits c) (term_credit_limit p)), p)
               else (Inr (), p\<lparr>items := items p @
                       [\<lparr>item_course_id = cid, actual_semester = strip rt sem, gpa = None\<rparr>]\<rparr>))"
    if a: "ACTUAL_SEM_RE rt (strip rt sem)
        \<and> map_of (catalog p) cid = Some c
        \<and> cid \<notin> item_course_id ` set (items p)
        \<and> extract_season rt (semester c) = Inr [last (strip rt sem)]
        \<and> resolved p"
  proof -
    from a have s: "ensure_actual_semester rt sem = Inr (strip rt sem)"
      by (simp add: ensure_actual_semester_Inr)
    from a have c: "Catalog_get (catalog p) cid = Inr c" by (simp add: Catalog_get_map_of)
    from a have n: "\<not> has_course p cid" by (simp add: has_course_iff)
    from a have e: "extract_season rt (semester c) = Inr [last (strip rt sem)]" by simp
    from a have "resolved p" by simp
    with s have t: "semester_credits rt p (strip rt sem)
        = Inr (scheduled_credits rt p (strip rt sem))"
      by (rule semester_credits_resolved)
    show ?thesis by (rule add_course_checked[OF s c n e t])
  qed
  have x: "exn_class (CreditCapExceeded s current incoming limit) = ValueError" by simp
  from only checked x show ?thesis by blast
qed

text \<open>The scenario of the specification: with a term limit of 3, adding \<^verbatim>\<open>"A1"\<close>
  (3 credits) to the empty first autumn reaches the limit exactly and succeeds, and
  adding \<^verbatim>\<open>"B1"\<close> (2 credits) to the same term then fails, since 3 + 2 > 3: the error
  carries 3, 2 and 3. Adding \<^verbatim>\<open>"B1"\<close> to the second autumn instead succeeds: the 3
  credits of the first autumn do not count there.\<close>

theorem add_course_credit_cap_witness:
  "add_course ascii_rt (ex_plan (Num 3) []) [65, 49] [49, qiu]
     = (Inr (), ex_plan (Num 3) [ex_item [65, 49] [49, qiu] None])
   \<and> scheduled_credits ascii_rt (ex_plan (Num 3) [ex_item [65, 49] [49, qiu] None]) [49, qiu]
     = Num 3
   \<and> add_course ascii_rt (ex_plan (Num 3) [ex_item [65, 49] [49, qiu] None]) [66, 49] [49, qiu]
     = (Inl (CreditCapExceeded [49, qiu] (Num 3) (Num 2) (Num 3)),
        ex_plan (Num 3) [ex_item [65, 49] [49, qiu] None])
   \<and> scheduled_credits ascii_rt (ex_plan (Num 3) [ex_item [65, 49] [49, qiu] None]) [50, qiu]
     = Num 0
   \<and> add_course ascii_rt (ex_plan (Num 3) [ex_item [65, 49] [49, qiu] None]) [66, 49]
       [32, 50, qiu]
     = (Inr (), ex_plan (Num 3) [ex_item [65, 49] [49, qiu] None,
                                  ex_item [66, 49] [50, qiu] None])"
  using
    add_course_credit_cap[of ascii_rt "ex_plan (Num 3) [ex_item [65, 49] [49, qiu] None]"
      "[66, 49]" "[49, qiu]" "[49, qiu]" "Num 3" "Num 2" "Num 3"
      "ex_plan (Num 3) [ex_item [65, 49] [49, qiu] None]" ex_B1]
    add_course_credit_cap[of ascii_rt "ex_plan (Num 3) [ex_item [65, 49] [49, qiu] None]"
      "[66, 49]" "[32, 50, qiu]" "[50, qiu]" "Num 0" "Num 2" "Num 3"
      "ex_plan (Num 3) [ex_item [65, 49] [49, qiu] None]" ex_B1]
  by (simp add: eval_defs scheduled_credits_def term_credits_def resolved_def
        string_defs example_defs)

subsection \<open>Adding all required courses\<close>

text \<open>
  Claim C7, as the specification states it, sends a course whose tag has an explicit
  year and season to that exact semester. The code does so only when the tag is one
  of the twelve plan semesters: a tag outside them is replaced by the same season of
  year 4. The required course \<^verbatim>\<open>"Y5"\<close>, tagged for the autumn of year 5 (a tag that
  \<^verbatim>\<open>ACTUAL_SEM_RE\<close> accepts), is enrolled in the autumn of year 4.
\<close>

theorem explicit_year_tag_counterexample:
  "semester ex_Y5 = [53, qiu]
   \<and> ACTUAL_SEM_RE ascii_rt (semester ex_Y5)
   \<and> Catalog_init ascii_rt [ex_Y5] = Inr [([89, 53], ex_Y5)]
   \<and> auto_add_all_required ascii_rt
        \<lparr>catalog = [([89, 53], ex_Y5)], term_credit_limit = Num 30,
         elective_credit_requirement = Num 15, items = []\<rparr>
     = (Inr (), \<lparr>catalog = [([89, 53], ex_Y5)], term_credit_limit = Num 30,
                 elective_credit_requirement = Num 15,
                 items = [ex_item [89, 53] [52, qiu] None]\<rparr>)"
  by (simp add: Catalog_init_def eval_defs string_defs example_defs example5_defs)

text \<open>
  Claim C7 (amended). For a plan over a catalog that \<^verbatim>\<open>Catalog\<close> has constructed (and a
  runtime in which the three season characters are not white space),
  \<^verbatim>\<open>auto_add_all_required\<close> goes through the courses of the catalog whose type is
  \<^verbatim>\<open>"\<close>required\<^verbatim>\<open>"\<close> and that are not enrolled, sorted by season and then identifier;
  courses of any other type are left out. For each it targets the course's own tag
  when the tag is one of the twelve plan semesters (years 1 to 4), and the season of
  the tag in year 4 otherwise (a season-only tag, or a year outside the plan). Each
  target is enrolled with \<^verbatim>\<open>add_course\<close>; the batch stops at the first \<^verbatim>\<open>add_course\<close> that
  fails, raises its error, and the courses added before stay enrolled.
\<close>

theorem auto_add_all_required_batch:
  assumes init: "Catalog_init rt courses = Inr (catalog p)"
    and sp: "\<not> is_space rt qiu" "\<not> is_space rt chun" "\<not> is_space rt xia"
  shows "auto_add_all_required rt p = add_each rt p (required_batch rt p)"
proof -
  let ?req = "required_courses (catalog p)"
  let ?k = "\<lambda>c. ([last (strip rt (semester c))], course_id c)"
  from Catalog_init_Inr[OF init] have d: "distinct (map course_id courses)"
    and v: "\<forall>c \<in> set courses. \<exists>x. extract_season rt (semester c) = Inr x" by simp_all
  have req: "?req = filter (\<lambda>c. course_type c = REQUIRED) courses"
    using init by (rule required_courses_init)
  from v req have vr: "\<forall>c \<in> set ?req. \<exists>x. extract_season rt (semester c) = Inr x" by simp
  from d req have dr: "distinct (map course_id ?req)" by (simp add: distinct_map_filter)
  have keys: "season_keys rt ?req = Inr (map (\<lambda>c. (?k c, c)) ?req)"
    using vr by (rule season_keys_valid)
  have sorted_req: "map snd (sort_key fst (map (\<lambda>c. (?k c, c)) ?req)) = sort_key ?k ?req"
    by (rule sort_key_decorated)
  have ds: "distinct (map course_id (sort_key ?k ?req))"
    using dr by (rule distinct_map_sort_key)
  have ts: "\<forall>c \<in> set (sort_key ?k ?req). auto_target rt c = Inr (placement rt c)"
    using vr sp by (auto intro: auto_target_placement)
  have sel: "filter (\<lambda>c. \<not> has_course p (course_id c)) (sort_key ?k ?req)
      = sort_key ?k (filter (\<lambda>c. course_type c = [24517, 20462]
                                  \<and> course_id c \<notin> item_course_id ` set (items p))
                       (map snd (catalog p)))"
    by (simp add: filter_sort required_courses_def REQUIRED_def has_course_iff conj_commute)
  have "auto_add_all_required rt p = auto_add_loop rt p (sort_key ?k ?req)"
    by (simp add: auto_add_all_required_def keys sorted_req)
  also have "\<dots> = add_each rt p (map (\<lambda>c. (course_id c, placement rt c))
                          (filter (\<lambda>c. \<not> has_course p (course_id c)) (sort_key ?k ?req)))"
    by (rule auto_add_loop_batch[OF ds ts])
  also have "\<dots> = add_each rt p (required_batch rt p)"
    by (simp only: sel required_batch_def)
  finally show ?thesis .
qed

text \<open>A catalog with \<^verbatim>\<open>"B1"\<close> and \<^verbatim>\<open>"A1"\<close> (required, autumn, no year), the elective
  \<^verbatim>\<open>"G1"\<close> (autumn), \<^verbatim>\<open>"S2"\<close> (required, spring of year 2) and \<^verbatim>\<open>"Y5"\<close> (required, autumn of
  year 5): the elective is left out, spring sorts before autumn, \<^verbatim>\<open>"S2"\<close> keeps its
  semester, and the three autumn courses go to the autumn of year 4 in the order of
  their identifiers. With \<^verbatim>\<open>"Y5"\<close> enrolled already and a term limit of 4, the batch adds
  \<^verbatim>\<open>"S2"\<close> and \<^verbatim>\<open>"A1"\<close> and stops at \<^verbatim>\<open>"B1"\<close>, which exceeds the limit of the fourth
  autumn: \<^verbatim>\<open>"S2"\<close> and \<^verbatim>\<open>"A1"\<close> stay enrolled.\<close>

theorem auto_add_all_required_batch_witness:
  "Catalog_init ascii_rt [ex_B1, ex_G1, ex_A1, ex_S2, ex_Y5] = Inr (catalog (ex_plan5 []))
   \<and> \<not> is_space ascii_rt qiu \<and> \<not> is_space ascii_rt chun \<and> \<not> is_space ascii_rt xia
   \<and> required_batch ascii_rt (ex_plan5 [])
      = [([83, 50], [50, chun]), ([65, 49], [52, qiu]), ([66, 49], [52, qiu]),
         ([89, 53], [52, qiu])]
   \<and> auto_add_all_required ascii_rt (ex_plan5 [])
      = (Inr (), ex_plan5 [ex_item [83, 50] [50, chun] None, ex_item [65, 49] [52, qiu] None,
                           ex_item [66, 49] [52, qiu] None, ex_item [89, 53] [52, qiu] None])
   \<and> required_batch ascii_rt
        ((ex_plan5 [ex_item [89, 53] [49, qiu] None])\<lparr>term_credit_limit := Num 4\<rparr>)
      = [([83, 50], [50, chun]), ([65, 49], [52, qiu]), ([66, 49], [52, qiu])]
   \<and> auto_add_all_required ascii_rt
        ((ex_plan5 [ex_item [89, 53] [49, qiu] None])\<lparr>term_credit_limit := Num 4\<rparr>)
      = (Inl (CreditCapExceeded [52, qiu] (Num 3) (Num 2) (Num 4)),
         (ex_plan5 [ex_item [89, 53] [49, qiu] None, ex_item [83, 50] [50, chun] None,
                    ex_item [65, 49] [52, qiu] None])\<lparr>term_credit_limit := Num 4\<rparr>)"
proof -
  have i: "Catalog_init ascii_rt [ex_B1, ex_G1, ex_A1, ex_S2, ex_Y5] = Inr (catalog (ex_plan5 []))"
    by (simp add: Catalog_init_def string_defs example_defs example5_defs)
  have s: "\<not> is_space ascii_rt qiu" "\<not> is_space ascii_rt chun" "\<not> is_space ascii_rt xia"
    by (simp_all add: ascii_rt_def qiu_def chun_def xia_def)
  have b: "required_batch ascii_rt (ex_plan5 [])
      = [([83, 50], [50, chun]), ([65, 49], [52, qiu]), ([66, 49], [52, qiu]),
         ([89, 53], [52, qiu])]"
    by (simp add: required_batch_def placement_def string_defs example_defs example5_defs)
  have e: "add_each ascii_rt (ex_plan5 [])
        [([83, 50], [50, chun]), ([65, 49], [52, qiu]), ([66, 49], [52, qiu]),
         ([89, 53], [52, qiu])]
      = (Inr (), ex_plan5 [ex_item [83, 50] [50, chun] None, ex_item [65, 49] [52, qiu] None,
                           ex_item [66, 49] [52, qiu] None, ex_item [89, 53] [52, qiu] None])"
    by (simp add: eval_defs string_defs example_defs example5_defs)
  let ?q = "(ex_plan5 [ex_item [89, 53] [49, qiu] None])\<lparr>term_credit_limit := Num 4\<rparr>"
  have i': "Catalog_init ascii_rt [ex_B1, ex_G1, ex_A1, ex_S2, ex_Y5] = Inr (catalog ?q)"
    by (simp add: Catalog_init_def string_defs example_defs example5_defs)
  have b': "required_batch ascii_rt ?q
      = [([83, 50], [50, chun]), ([65, 49], [52, qiu]), ([66, 49], [52, qiu])]"
    by (simp add: required_batch_def placement_def string_defs example_defs example5_defs)
  have e': "add_each ascii_rt ?q
        [([83, 50], [50, chun]), ([65, 49], [52, qiu]), ([66, 49], [52, qiu])]
      = (Inl (CreditCapExceeded [52, qiu] (Num 3) (Num 2) (Num 4)),
         (ex_plan5 [ex_item [89, 53] [49, qiu] None, ex_item [83, 50] [50, chun] None,
                    ex_item [65, 49] [52, qiu] None])\<lparr>term_credit_limit := Num 4\<rparr>)"
    by (simp add: eval_defs string_defs example_defs example5_defs)
  from auto_add_all_required_batch[OF i s] auto_add_all_required_batch[OF i' s]
    i s b e b' e' show ?thesis by simp
qed

subsection \<open>Credit progress rows\<close>

text \<open>
  Claim C8. For requirements with distinct category names and a plan whose items all
  name courses of the catalog, \<^verbatim>\<open>credit_progress_rows(requirements)\<close> returns one row for
  each category of the requirements, in their declared order, followed by one row for
  each category of an enrolled course that the requirements do not declare, in sorted
  (code point) order. The row of a category holds the declared requirement (0.0 when
  there is none), the sum of the credits of the items of the category (selected) and
  the sum of the credits of its graded items (completed), each rounded to 3 decimals,
  and \<open>remaining\<close>: the rounded requirement minus the rounded completed credits, or
  0.0 when that difference is below 0.0, rounded to 3 decimals. With floats for which
  0.0 is not below itself, rounding keeps a value that is not below 0.0 so, and
  rounding a rounded value changes nothing, \<open>remaining\<close> is the maximum of 0.0 and the
  difference of the row's own \<open>required\<close> and \<open>completed\<close>, rounded to 3 decimals; it is
  never below 0.0; and rounding any of the four values of a row again changes nothing.
\<close>

theorem credit_progress_rows_order_and_remaining:
  assumes "distinct (map fst reqs)" and "resolved p"
  shows "\<exists>rows. credit_progress_rows rt p reqs = Inr rows
     \<and> rows = map (progress_row_of rt p reqs)
                (map fst reqs
                 @ sorted_list_of_set (set (enrolled_categories rt p) - set (map fst reqs)))
     \<and> map row_category rows
         = map fst reqs
           @ sorted_list_of_set (set (enrolled_categories rt p) - set (map fst reqs))
     \<and> (rounding_laws rt \<longrightarrow>
          (\<forall>r \<in> set rows.
             row_remaining r
               = fround rt (if flt rt (fsub rt (row_required r) (row_completed r)) (fzero rt)
                            then fzero rt
                            else fsub rt (row_required r) (row_completed r)) 3
             \<and> \<not> flt rt (row_remaining r) (fzero rt)
             \<and> fround rt (row_required r) 3 = row_required r
             \<and> fround rt (row_selected r) 3 = row_selected r
             \<and> fround rt (row_completed r) 3 = row_completed r
             \<and> fround rt (row_remaining r) 3 = row_remaining r))"
proof -
  let ?cats = "map fst reqs
      @ sorted_list_of_set (set (enrolled_categories rt p) - set (map fst reqs))"
  let ?rows = "map (progress_row_of rt p reqs) ?cats"
  have a: "credit_progress_rows rt p reqs = Inr ?rows"
    using assms by (rule credit_progress_rows_spec)
  have b: "map row_category ?rows = ?cats"
    by (simp add: comp_def progress_row_of_def Let_def)
  have c: "\<forall>r \<in> set ?rows.
             row_remaining r
               = fround rt (if flt rt (fsub rt (row_required r) (row_completed r)) (fzero rt)
                            then fzero rt
                            else fsub rt (row_required r) (row_completed r)) 3
             \<and> \<not> flt rt (row_remaining r) (fzero rt)
             \<and> fround rt (row_required r) 3 = row_required r
             \<and> fround rt (row_selected r) 3 = row_selected r
             \<and> fround rt (row_completed r) 3 = row_completed r
             \<and> fround rt (row_remaining r) 3 = row_remaining r"
    if l: "rounding_laws rt"
  proof
    fix r assume "r \<in> set ?rows"
    then obtain k where r: "r = progress_row_of rt p reqs k" by auto
    show "row_remaining r
               = fround rt (if flt rt (fsub rt (row_required r) (row_completed r)) (fzero rt)
                            then fzero rt
                            else fsub rt (row_required r) (row_completed r)) 3
             \<and> \<not> flt rt (row_remaining r) (fzero rt)
             \<and> fround rt (row_required r) 3 = row_required r
             \<and> fround rt (row_selected r) 3 = row_selected r
             \<and> fround rt (row_completed r) 3 = row_completed r
             \<and> fround rt (row_remaining r) 3 = row_remaining r"
      unfolding r
      by (intro conjI progress_row_of_laws[OF l])
  qed
  show ?thesis
    by (rule exI[of _ ?rows]) (use a b c in blast)
qed

text \<open>Requirements that declare the elective major category (6 credits) before
  \<^verbatim>\<open>"A"\<close> (1 credit), and a plan with \<^verbatim>\<open>"B1"\<close> graded (2 credits, default category),
  \<^verbatim>\<open>"G1"\<close> ungraded (1 credit, category \<^verbatim>\<open>"G"\<close>) and \<^verbatim>\<open>"M1"\<close> graded (2.0004 credits,
  elective major category written with blanks): the rows come in the declared order,
  then \<^verbatim>\<open>"G"\<close> and the default category in sorted order; 2.0004 is rounded to 2.0; the
  default category, with no requirement and 2 completed credits, has 0 remaining (not
  0 - 2).\<close>

theorem credit_progress_rows_order_and_remaining_witness:
  "credit_progress_rows ascii_rt
     (ex_plan_g [ex_item [66, 49] [49, qiu] (Some (Num 3)), ex_item [71, 49] [49, qiu] None,
                 ex_item [77, 49] [49, chun] (Some (Num 4))])
     [([19987, 19994, 36873, 20462], Num 6), ([65], Num 1)]
   = Inr [\<lparr>row_category = [19987, 19994, 36873, 20462], row_required = Num 6,
            row_selected = Num 2, row_completed = Num 2, row_remaining = Num 4\<rparr>,
          \<lparr>row_category = [65], row_required = Num 1, row_selected = Num 0,
            row_completed = Num 0, row_remaining = Num 1\<rparr>,
          \<lparr>row_category = [71], row_required = Num 0, row_selected = Num 1,
            row_completed = Num 0, row_remaining = Num 0\<rparr>,
          \<lparr>row_category = [26410, 20998, 31867], row_required = Num 0, row_selected = Num 2,
            row_completed = Num 2, row_remaining = Num 0\<rparr>]
   \<and> sorted_list_of_set
       (set (enrolled_categories ascii_rt
               (ex_plan_g [ex_item [66, 49] [49, qiu] (Some (Num 3)),
                           ex_item [71, 49] [49, qiu] None,
                           ex_item [77, 49] [49, chun] (Some (Num 4))]))
        - set (map fst [([19987, 19994, 36873, 20462], Num 6), ([65 :: nat], Num 1)]))
     = [[71], [26410, 20998, 31867]]
   \<and> progress_row_of ascii_rt
       (ex_plan_g [ex_item [66, 49] [49, qiu] (Some (Num 3)), ex_item [71, 49] [49, qiu] None,
                   ex_item [77, 49] [49, chun] (Some (Num 4))])
       [([19987, 19994, 36873, 20462], Num 6), ([65], Num 1)] [19987, 19994, 36873, 20462]
     = \<lparr>row_category = [19987, 19994, 36873, 20462], row_required = Num 6,
         row_selected = Num 2, row_completed = Num 2, row_remaining = Num 4\<rparr>"
proof -
  let ?p = "ex_plan_g [ex_item [66, 49] [49, qiu] (Some (Num 3)), ex_item [71, 49] [49, qiu] None,
                       ex_item [77, 49] [49, chun] (Some (Num 4))]"
  let ?r = "[([19987, 19994, 36873, 20462], Num 6), ([65 :: nat], Num 1)]"
  have d: "distinct (map fst ?r)" by simp
  have r: "resolved ?p"
    by (simp add: resolved_def ex_plan_g_def ex_item_def)
  have c: "sorted_list_of_set (set (enrolled_categories ascii_rt ?p) - set (map fst ?r))
      = [[71], [26410, 20998, 31867]]"
    by (simp add: enrolled_categories_def categories_of_def category_label_def strip_def
          ex_plan_g_def ex_G1_def ex_M1_def example_defs Let_def
          sorted_list_of_set_sort_remdups insert_Diff_if)
  have v: "map (progress_row_of ascii_rt ?p ?r)
        [[19987, 19994, 36873, 20462], [65], [71], [26410, 20998, 31867]]
      = [\<lparr>row_category = [19987, 19994, 36873, 20462], row_required = Num 6,
            row_selected = Num 2, row_completed = Num 2, row_remaining = Num 4\<rparr>,
          \<lparr>row_category = [65], row_required = Num 1, row_selected = Num 0,
            row_completed = Num 0, row_remaining = Num 1\<rparr>,
          \<lparr>row_category = [71], row_required = Num 0, row_selected = Num 1,
            row_completed = Num 0, row_remaining = Num 0\<rparr>,
          \<lparr>row_category = [26410, 20998, 31867], row_required = Num 0, row_selected = Num 2,
            row_completed = Num 2, row_remaining = Num 0\<rparr>]"
    by (simp add: progress_row_of_def running_total_def category_credits_def credits_in_def
          category_label_def strip_def decimal_round_def Let_def
          ex_plan_g_def ex_G1_def ex_M1_def example_defs)
  from credit_progress_rows_order_and_remaining[OF d r, of ascii_rt] c v
  show ?thesis by simp
qed

end
